theory Spec2Isabelle
  imports Complex_Main "HOL-Library.Sublist"
begin

section \<open>Python values\<close>

text \<open>
  A Python \<open>str\<close> is a sequence of Unicode code points: \<open>len\<close>, slicing and \<open>in\<close>
  count code points. A string is therefore a list of code points (natural numbers), and
  \<open>str_of\<close> turns an ASCII literal into one. Similarities and distances are Python
  floats; only their order and \<open>1 - d\<close> matter here, they are modelled as reals.
\<close>

type_synonym pystr = "nat list"

definition str_of :: "string \<Rightarrow> pystr" where
  "str_of s = map of_char s"

text \<open>Exceptions, as values. \<open>OtherError\<close> carries the message of any other exception.\<close>

datatype error =
    IndexError
  | KeyError
  | TypeError
  | AttributeError
  | FileNotFoundError
  | JSONDecodeError
  | UnicodeDecodeError
  | RecursionError
  | ZeroDivisionError
  | OtherError pystr

text \<open>Scalar values held in metadata and in the \<open>sources\<close> entries of a response.\<close>

datatype pyval = PNone | PBool bool | PInt int | PFloat real | PStr pystr

text \<open>A \<open>dict\<close> with string keys, in insertion order.\<close>

type_synonym pydict = "(pystr \<times> pyval) list"

definition dict_get :: "pydict \<Rightarrow> pystr \<Rightarrow> pyval \<Rightarrow> pyval" where
  \<comment> \<open>\<open>d.get(key, default)\<close>\<close>
  "dict_get d key dflt = (case map_of d key of None \<Rightarrow> dflt | Some v \<Rightarrow> v)"

definition subscript :: "'a list \<Rightarrow> nat \<Rightarrow> error + 'a" where
  \<comment> \<open>\<open>xs[i]\<close> for \<open>i \<ge> 0\<close>: IndexError out of range\<close>
  "subscript xs i = (if i < length xs then Inr (xs ! i) else Inl IndexError)"

definition subscript2 :: "'a list list option \<Rightarrow> nat \<Rightarrow> error + 'a" where
  \<comment> \<open>\<open>table[0][i]\<close> where \<open>table\<close> may be \<open>None\<close> (TypeError)\<close>
  "subscript2 table i =
     (case table of
        None \<Rightarrow> Inl TypeError
      | Some rows \<Rightarrow> (case subscript rows 0 of Inl e \<Rightarrow> Inl e | Inr row \<Rightarrow> subscript row i))"

section \<open>Configuration (config.py)\<close>

record rag_config =
  top_k :: int
  similarity_threshold :: real

definition RAG_CONFIG :: rag_config where
  "RAG_CONFIG = \<lparr> top_k = 5, similarity_threshold = 0.3 \<rparr>"

section \<open>The retriever (rag_system.py)\<close>

text \<open>
  What \<open>collection.query\<close> returns: one row per query embedding in each column.
  \<open>ids\<close> is always a list; the other columns are optional.
\<close>

record query_result =
  ids :: "pystr list list"
  distances :: "real list list option"
  documents :: "pystr list list option"
  metadatas :: "pydict list list option"

text \<open>A retrieved match, the dict built by \<open>retrieve_documents\<close>.\<close>

record context_doc =
  doc_id :: pystr
  doc_text :: pystr
  doc_metadata :: pydict
  doc_similarity :: real

text \<open>
  The two collaborators of the retriever are outside the repository: the sentence
  encoder and the vector collection. They are fields of the system, each a function
  that may raise.
\<close>

record rag_system =
  encode :: "pystr list \<Rightarrow> error + real list list"
  collection_query :: "real list list \<Rightarrow> int \<Rightarrow> error + query_result"
  llm_pipeline :: "(pystr \<Rightarrow> error + pydict list) option"

definition truthy :: "'a list option \<Rightarrow> bool" where
  \<comment> \<open>truth value of an optional list: \<open>None\<close> and \<open>[]\<close> are false\<close>
  "truthy v = (case v of None \<Rightarrow> False | Some xs \<Rightarrow> xs \<noteq> [])"

definition distance_at :: "query_result \<Rightarrow> nat \<Rightarrow> error + real" where
  \<comment> \<open>\<open>results["distances"][0][i] if results["distances"] else 0\<close>\<close>
  "distance_at results i =
     (if truthy (distances results) then subscript2 (distances results) i else Inr 0)"

text \<open>
  The body of the \<open>for i, doc_id in enumerate(results["ids"][0])\<close> loop, with the list
  \<open>retrieved_docs\<close> as accumulator. An exception leaves the loop and the function.
\<close>

fun retrieve_loop ::
  "rag_config \<Rightarrow> query_result \<Rightarrow> (nat \<times> pystr) list \<Rightarrow> context_doc list
     \<Rightarrow> error + context_doc list" where
  "retrieve_loop cfg results [] retrieved_docs = Inr retrieved_docs"
| "retrieve_loop cfg results ((i, did) # rest) retrieved_docs =
     (case distance_at results i of
        Inl e \<Rightarrow> Inl e
      | Inr distance \<Rightarrow>
          (let similarity = 1 - distance in
           if similarity \<ge> similarity_threshold cfg then
             (case subscript2 (documents results) i of
                Inl e \<Rightarrow> Inl e
              | Inr text \<Rightarrow>
                  (case subscript2 (metadatas results) i of
                     Inl e \<Rightarrow> Inl e
                   | Inr metadata \<Rightarrow>
                       retrieve_loop cfg results rest
                         (retrieved_docs @
                            [\<lparr> doc_id = did, doc_text = text, doc_metadata = metadata,
                               doc_similarity = similarity \<rparr>])))
           else retrieve_loop cfg results rest retrieved_docs))"

definition format_results :: "rag_config \<Rightarrow> query_result \<Rightarrow> error + context_doc list" where
  \<comment> \<open>\<open>if results["ids"] and len(results["ids"]) > 0: for ... in enumerate(results["ids"][0])\<close>\<close>
  "format_results cfg results =
     (case ids results of
        [] \<Rightarrow> Inr []
      | first # _ \<Rightarrow> retrieve_loop cfg results (enumerate 0 first) [])"

definition retrieve_documents ::
  "rag_config \<Rightarrow> rag_system \<Rightarrow> pystr \<Rightarrow> int option \<Rightarrow> error + context_doc list" where
  "retrieve_documents cfg self query top_k_arg =
     (let k = (case top_k_arg of None \<Rightarrow> top_k cfg | Some k \<Rightarrow> k) in
      case encode self [query] of
        Inl e \<Rightarrow> Inl e
      | Inr embeddings \<Rightarrow>
          (case subscript embeddings 0 of
             Inl e \<Rightarrow> Inl e
           | Inr query_embedding \<Rightarrow>
               (case collection_query self [query_embedding] k of
                  Inl e \<Rightarrow> Inl e
                | Inr results \<Rightarrow> format_results cfg results)))"


section \<open>The raw nearest-neighbour list\<close>

text \<open>
  The vector index answers in columns. \<open>raw_neighbours\<close> reads the first row of each column
  back as the list of matches the index returned, before any filtering, with the
  similarity \<open>1 - distance\<close> of each (distance \<open>0\<close> when the index sent no distances).
  \<open>wf_result\<close> says the columns describe one list: the rows have one entry per id.
\<close>

definition row0 :: "'a list list option \<Rightarrow> 'a list" where
  "row0 table = (case table of Some (row # _) \<Rightarrow> row | _ \<Rightarrow> [])"

definition distance_row :: "query_result \<Rightarrow> real list" where
  "distance_row results =
     (if truthy (distances results) then row0 (distances results)
      else replicate (length (row0 (Some (ids results)))) 0)"

definition wf_result :: "query_result \<Rightarrow> bool" where
  "wf_result results =
     (length (row0 (documents results)) = length (row0 (Some (ids results))) \<and>
      length (row0 (metadatas results)) = length (row0 (Some (ids results))) \<and>
      length (distance_row results) = length (row0 (Some (ids results))))"

definition raw_neighbours :: "query_result \<Rightarrow> context_doc list" where
  "raw_neighbours results =
     map (\<lambda>(did, text, metadata, distance).
            \<lparr> doc_id = did, doc_text = text, doc_metadata = metadata,
              doc_similarity = 1 - distance \<rparr>)
       (zip (row0 (Some (ids results)))
          (zip (row0 (documents results))
             (zip (row0 (metadatas results)) (distance_row results))))"

definition above_threshold :: "rag_config \<Rightarrow> context_doc \<Rightarrow> bool" where
  "above_threshold cfg d = (doc_similarity d \<ge> similarity_threshold cfg)"

subsection \<open>A small index, for concrete runs\<close>

text \<open>
  Three stored entries at distances 0.2, 0.5 and 0.9 from every query; the index
  answers with the nearest \<open>k\<close> of them. As the vector database of the deployment
  does, it refuses a request for zero or fewer results with a TypeError.
\<close>

definition example_index :: "int \<Rightarrow> query_result" where
  "example_index k =
     \<lparr> ids = [take (nat k) [str_of ''doc_1'', str_of ''doc_4'', str_of ''doc_2'']],
       distances = Some [take (nat k) [0.2, 0.5, 0.9]],
       documents = Some [take (nat k)
         [str_of ''Ouagadougou'', str_of ''FESPACO'', str_of ''Banfora'']],
       metadatas = Some [take (nat k)
         [[(str_of ''title'', PStr (str_of ''Capitale''))], [], []]] \<rparr>"

definition example_rag :: rag_system where
  "example_rag =
     \<lparr> encode = (\<lambda>texts. Inr (map (\<lambda>t. [1, 0]) texts)),
       collection_query = (\<lambda>embeddings k.
         if k \<le> 0 then Inl TypeError else Inr (example_index k)),
       llm_pipeline = None \<rparr>"

definition empty_rag :: rag_system where
  \<comment> \<open>the same system over an empty collection\<close>
  "empty_rag =
     example_rag\<lparr>collection_query := (\<lambda>embeddings k.
       if k \<le> 0 then Inl TypeError
       else Inr \<lparr> ids = [[]], distances = Some [[]], documents = Some [[]],
                   metadatas = Some [[]] \<rparr>)\<rparr>"

definition example_match :: "nat \<Rightarrow> context_doc" where
  "example_match i = raw_neighbours (example_index 3) ! i"

section \<open>Unicode tables of the runtime\<close>

text \<open>
  \<open>str.lower\<close>, \<open>str.strip\<close>, \<open>str.split\<close> and the regular-expression class \<open>\w\<close> read
  Python's Unicode tables, which are not part of the repository. They are parameters:
  \<open>u_isspace\<close> is the whitespace test of \<open>strip\<close>, \<open>split\<close> and \<open>\s\<close>, \<open>u_isword\<close> the test
  of \<open>\w\<close> (alphanumeric or underscore) and \<open>u_lower\<close> is \<open>str.lower\<close>.
\<close>

record unicode =
  u_isspace :: "nat \<Rightarrow> bool"
  u_isword :: "nat \<Rightarrow> bool"
  u_lower :: "pystr \<Rightarrow> pystr"

definition strip :: "unicode \<Rightarrow> pystr \<Rightarrow> pystr" where
  \<comment> \<open>\<open>s.strip()\<close>\<close>
  "strip u s = rev (dropWhile (u_isspace u) (rev (dropWhile (u_isspace u) s)))"

fun split_ws :: "unicode \<Rightarrow> pystr \<Rightarrow> pystr \<Rightarrow> pystr list" where
  \<comment> \<open>\<open>s.split()\<close>: the maximal runs of non-whitespace; the second argument is the run being read\<close>
  "split_ws u cur [] = (if cur = [] then [] else [cur])"
| "split_ws u cur (c # cs) =
     (if u_isspace u c then (if cur = [] then [] else [cur]) @ split_ws u [] cs
      else split_ws u (cur @ [c]) cs)"

text \<open>
  Python's tables on the code points below 256 (ASCII and Latin-1), used for the concrete
  runs. Code points from 256 on are left unchanged by \<open>latin1_lower\<close> and are neither
  whitespace nor word characters here, so \<open>latin1\<close> stands for the runtime on Latin-1
  text only; the general theorems hold for every table.
\<close>

definition latin1_isspace :: "nat \<Rightarrow> bool" where
  "latin1_isspace c =
     (c = 32 \<or> (9 \<le> c \<and> c \<le> 13) \<or> (28 \<le> c \<and> c \<le> 31) \<or> c = 133 \<or> c = 160)"

definition latin1_isword :: "nat \<Rightarrow> bool" where
  "latin1_isword c =
     ((48 \<le> c \<and> c \<le> 57) \<or> (65 \<le> c \<and> c \<le> 90) \<or> c = 95 \<or> (97 \<le> c \<and> c \<le> 122) \<or>
      c = 170 \<or> c = 178 \<or> c = 179 \<or> c = 181 \<or> c = 185 \<or> c = 186 \<or>
      (188 \<le> c \<and> c \<le> 190) \<or> (192 \<le> c \<and> c \<le> 214) \<or> (216 \<le> c \<and> c \<le> 246) \<or>
      (248 \<le> c \<and> c \<le> 255))"

definition latin1_lower :: "nat \<Rightarrow> nat" where
  "latin1_lower c =
     (if (65 \<le> c \<and> c \<le> 90) \<or> (192 \<le> c \<and> c \<le> 214) \<or> (216 \<le> c \<and> c \<le> 222)
      then c + 32 else c)"

definition latin1 :: unicode where
  "latin1 = \<lparr> u_isspace = latin1_isspace, u_isword = latin1_isword,
              u_lower = map latin1_lower \<rparr>"

section \<open>Corpus statistics (data_loader.py)\<close>

text \<open>
  A corpus document is the dict \<open>{"id", "text", "metadata"}\<close>; \<open>metadata\<close> is read with
  \<open>doc.get("metadata", {})\<close>, so it may be absent. The loader holds the list of documents
  and the set of source URLs, and knows the path of its corpus file.
\<close>

record corpus_doc =
  cd_id :: pystr
  cd_text :: pystr
  cd_metadata :: "pydict option"

record data_loader =
  dl_corpus_path :: pystr
  dl_documents :: "corpus_doc list"
  dl_sources :: "pystr set"

record statistics =
  total_documents :: int
  total_characters :: int
  total_words :: int
  average_doc_length :: int
  categories :: "(pyval \<times> int) list"
  sources_count :: int

definition floordiv :: "int \<Rightarrow> int \<Rightarrow> error + int" where
  \<comment> \<open>\<open>a // b\<close> on Python ints\<close>
  "floordiv a b = (if b = 0 then Inl ZeroDivisionError else Inr (a div b))"

definition count_category :: "(pyval \<times> int) list \<Rightarrow> corpus_doc \<Rightarrow> (pyval \<times> int) list" where
  \<comment> \<open>\<open>categories[category] = categories.get(category, 0) + 1\<close>\<close>
  "count_category cats doc =
     (let category = dict_get (case cd_metadata doc of None \<Rightarrow> [] | Some m \<Rightarrow> m)
                       (str_of ''category'') (PStr (str_of ''unknown''))
      in case map_of cats category of
           None \<Rightarrow> cats @ [(category, 1)]
         | Some n \<Rightarrow> map (\<lambda>(c, m). if c = category then (c, n + 1) else (c, m)) cats)"

definition get_statistics :: "unicode \<Rightarrow> data_loader \<Rightarrow> error + statistics" where
  "get_statistics u self =
     (let total_docs = int (length (dl_documents self));
          total_chars = (\<Sum>doc \<leftarrow> dl_documents self. int (length (cd_text doc)));
          total_wds = (\<Sum>doc \<leftarrow> dl_documents self. int (length (split_ws u [] (cd_text doc))));
          cats = foldl count_category [] (dl_documents self)
      in case (if total_docs > 0 then floordiv total_chars total_docs else Inr 0) of
           Inl e \<Rightarrow> Inl e
         | Inr average \<Rightarrow>
             Inr \<lparr> total_documents = total_docs, total_characters = total_chars,
                   total_words = total_wds, average_doc_length = average,
                   categories = cats, sources_count = int (card (dl_sources self)) \<rparr>)"

section \<open>Keyword fallback search (main.py)\<close>

fun contains :: "pystr \<Rightarrow> pystr \<Rightarrow> bool" where
  \<comment> \<open>\<open>w in s\<close> on strings: \<open>w\<close> occurs in \<open>s\<close> as a contiguous substring\<close>
  "contains w [] = (w = [])"
| "contains w (c # cs) = (prefix w (c # cs) \<or> contains w cs)"

text \<open>
  \<open>re.findall(r"\w{3,}", s)\<close>: at each position the pattern takes the longest run of word
  characters; a run of three or more is a match and the scan goes on after it, otherwise
  the scan moves one character on.
\<close>

function findall_w3 :: "unicode \<Rightarrow> pystr \<Rightarrow> pystr list" where
  "findall_w3 u [] = []"
| "findall_w3 u (c # cs) =
     (let m = takeWhile (u_isword u) (c # cs) in
      if length m \<ge> 3 then m # findall_w3 u (drop (length m) (c # cs))
      else findall_w3 u cs)"
  by pat_completeness auto
termination
  by (relation "measure (\<lambda>(u, s). length s)") auto

fun snippets_loop ::
  "unicode \<Rightarrow> pystr list \<Rightarrow> int \<Rightarrow> pystr list \<Rightarrow> pystr list \<Rightarrow> pystr list" where
  \<comment> \<open>the \<open>for line in sources\<close> loop, \<open>results\<close> as accumulator, \<open>break\<close> as return\<close>
  "snippets_loop u words max_results [] results = results"
| "snippets_loop u words max_results (line # rest) results =
     (let lw = u_lower u line in
      if list_ex (\<lambda>w. contains w lw) words then
        (let results' = results @ [line] in
         if int (length results') \<ge> max_results then results'
         else snippets_loop u words max_results rest results')
      else snippets_loop u words max_results rest results)"

definition find_relevant_snippets ::
  "unicode \<Rightarrow> pystr \<Rightarrow> pystr list \<Rightarrow> int \<Rightarrow> pystr list" where
  "find_relevant_snippets u query sources max_results =
     (let words = map (u_lower u) (findall_w3 u query)
      in snippets_loop u words max_results sources [])"

subsection \<open>The search as the specification words it\<close>

function word_runs :: "unicode \<Rightarrow> pystr \<Rightarrow> pystr list" where
  \<comment> \<open>the words of a string: its maximal runs of word characters\<close>
  "word_runs u [] = []"
| "word_runs u (c # cs) =
     (if u_isword u c
      then takeWhile (u_isword u) (c # cs) # word_runs u (dropWhile (u_isword u) (c # cs))
      else word_runs u cs)"
  by pat_completeness auto
termination
  by (relation "measure (\<lambda>(u, s). length s)") (auto simp: less_Suc_eq_le length_dropWhile_le)

definition spec_tokens :: "unicode \<Rightarrow> pystr \<Rightarrow> pystr list" where
  \<comment> \<open>the lowercase words of length at least 3\<close>
  "spec_tokens u query = map (u_lower u) (filter (\<lambda>w. length w \<ge> 3) (word_runs u query))"

definition line_matches :: "unicode \<Rightarrow> pystr list \<Rightarrow> pystr \<Rightarrow> bool" where
  \<comment> \<open>the line contains a token, compared in lower case\<close>
  "line_matches u tokens line = list_ex (\<lambda>tok. sublist tok (u_lower u line)) tokens"

definition keyword_search_spec :: "unicode \<Rightarrow> pystr \<Rightarrow> pystr list \<Rightarrow> int \<Rightarrow> pystr list" where
  \<comment> \<open>the first \<open>max_results\<close> matching lines, in stored order\<close>
  "keyword_search_spec u query lines max_results =
     take (nat max_results) (filter (line_matches u (spec_tokens u query)) lines)"

text \<open>The two lines of the keyword scenario; 224 is the code point of a with grave accent.\<close>

definition fespaco_line :: pystr where
  "fespaco_line = str_of ''Festival FESPACO '' @ [224] @ str_of '' Ouagadougou''"

definition banfora_line :: pystr where
  "banfora_line = str_of ''Cascade de Banfora''"

section \<open>The answer generator (rag_system.py)\<close>

fun str_nat :: "nat \<Rightarrow> pystr" where
  \<comment> \<open>\<open>str(i)\<close> for \<open>i \<ge> 0\<close>: the decimal digits\<close>
  "str_nat n = (if n < 10 then [48 + n] else str_nat (n div 10) @ [48 + n mod 10])"

declare str_nat.simps [simp del]

definition join :: "pystr \<Rightarrow> pystr list \<Rightarrow> pystr" where
  \<comment> \<open>\<open>sep.join(parts)\<close>\<close>
  "join sep parts = (case parts of [] \<Rightarrow> [] | p # ps \<Rightarrow> p @ concat (map (\<lambda>q. sep @ q) ps))"

function remove_all :: "pystr \<Rightarrow> pystr \<Rightarrow> pystr" where
  \<comment> \<open>\<open>s.replace(old, "")\<close>: every occurrence of \<open>old\<close>, left to right, is dropped;
      an empty \<open>old\<close> leaves \<open>s\<close> as it is\<close>
  "remove_all old [] = []"
| "remove_all old (c # cs) =
     (if old \<noteq> [] \<and> prefix old (c # cs) then remove_all old (drop (length old) (c # cs))
      else c # remove_all old cs)"
  by pat_completeness auto
termination
  by (relation "measure (\<lambda>(old, s). length s)") auto

definition build_context :: "context_doc list \<Rightarrow> pystr" where
  "build_context docs =
     (if docs = [] then []
      else join [10, 10]
             (map (\<lambda>(i, doc). str_of ''Document '' @ str_nat i @ str_of '':'' @ [10] @ doc_text doc)
                (enumerate 1 docs)))"

text \<open>The messages of the fallback tier; 233 and 224 are e acute and a grave, 39 the apostrophe.\<close>

definition general_responses :: "(pystr \<times> pystr) list" where
  "general_responses =
     [(str_of ''bonjour'',
       str_of ''Bonjour! Je suis votre assistant touristique pour le Burkina Faso. Comment puis-je vous aider?''),
      (str_of ''salut'',
       str_of ''Salut! Bienvenue. Je suis ici pour r'' @ [233] @ str_of ''pondre '' @ [224] @
       str_of '' vos questions sur le tourisme au Burkina Faso.''),
      (str_of ''merci'',
       str_of ''De rien! N'' @ [39] @ str_of ''h'' @ [233] @ str_of ''sitez pas '' @ [224] @
       str_of '' me poser d'' @ [39] @ str_of ''autres questions.''),
      (str_of ''au revoir'', str_of ''Au revoir! Bon voyage au Burkina Faso!'')]"

definition no_information :: pystr where
  "no_information =
     str_of ''Je ne dispose pas d'' @ [39] @ str_of ''informations sp'' @ [233] @
     str_of ''cifiques sur ce sujet. Pouvez-vous poser une question relative au tourisme au Burkina Faso?''"

fun first_trigger :: "(pystr \<times> pystr) list \<Rightarrow> pystr \<Rightarrow> pystr option" where
  \<comment> \<open>\<open>for key, response in general_responses.items(): if key in query_lower: return response\<close>\<close>
  "first_trigger [] query_lower = None"
| "first_trigger ((key, response) # rest) query_lower =
     (if contains key query_lower then Some response else first_trigger rest query_lower)"

definition generate_fallback_response :: "unicode \<Rightarrow> pystr \<Rightarrow> pystr" where
  "generate_fallback_response u query =
     (let query_lower = strip u (u_lower u query)
      in case first_trigger general_responses query_lower of
           Some response \<Rightarrow> response
         | None \<Rightarrow> no_information)"

definition generate_with_template :: "unicode \<Rightarrow> pystr \<Rightarrow> pystr \<Rightarrow> pystr" where
  "generate_with_template u query context =
     (if context = [] then generate_fallback_response u query
      else str_of ''Bas'' @ [233] @ str_of '' sur les informations disponibles: '' @
           take 200 context @ str_of ''...'')"

definition build_prompt :: "pystr \<Rightarrow> pystr \<Rightarrow> pystr" where
  "build_prompt query context =
     str_of ''Contexte:'' @ [10] @ context @ [10, 10] @ str_of ''Question: '' @ query @ [10, 10] @
     str_of ''R'' @ [233] @ str_of ''ponse bas'' @ [233] @ str_of ''e sur le contexte:''"

definition llm_answer :: "unicode \<Rightarrow> (pystr \<Rightarrow> error + pydict list) \<Rightarrow> pystr \<Rightarrow> error + pystr" where
  \<comment> \<open>the body of the \<open>try\<close>: the pipeline call,
      \<open>output[0]["generated_text"].replace(prompt, "").strip()\<close>\<close>
  "llm_answer u llm prompt =
     (case llm prompt of
        Inl e \<Rightarrow> Inl e
      | Inr output \<Rightarrow>
          (case subscript output 0 of
             Inl e \<Rightarrow> Inl e
           | Inr first \<Rightarrow>
               (case map_of first (str_of ''generated_text'') of
                  None \<Rightarrow> Inl KeyError
                | Some (PStr generated) \<Rightarrow> Inr (strip u (remove_all prompt generated))
                | Some _ \<Rightarrow> Inl AttributeError)))"

definition generate_with_llm ::
  "unicode \<Rightarrow> (pystr \<Rightarrow> error + pydict list) \<Rightarrow> pystr \<Rightarrow> pystr \<Rightarrow> pystr" where
  \<comment> \<open>\<open>except Exception\<close>: every failure of the body falls through to the template tier\<close>
  "generate_with_llm u llm query context =
     (case llm_answer u llm (build_prompt query context) of
        Inr response \<Rightarrow> response
      | Inl e \<Rightarrow> generate_with_template u query context)"

record generated =
  response :: pystr
  sources :: "pydict list"
  context_used :: bool

definition source_of :: "context_doc \<Rightarrow> pydict" where
  "source_of doc =
     [(str_of ''title'', dict_get (doc_metadata doc) (str_of ''title'') (PStr (str_of ''Source''))),
      (str_of ''url'', dict_get (doc_metadata doc) (str_of ''url'') (PStr [])),
      (str_of ''similarity'', PFloat (doc_similarity doc))]"

definition generate_response :: "unicode \<Rightarrow> rag_system \<Rightarrow> pystr \<Rightarrow> context_doc list \<Rightarrow> generated" where
  "generate_response u self query context_docs =
     (let context = build_context context_docs;
          resp = (case llm_pipeline self of
                    Some llm \<Rightarrow> generate_with_llm u llm query context
                  | None \<Rightarrow> generate_with_template u query context)
      in \<lparr> response = resp, sources = map source_of context_docs,
           context_used = (length context_docs > 0) \<rparr>)"

definition fixed_responses :: "pystr list" where
  \<comment> \<open>the four trigger responses and the "no information" message\<close>
  "fixed_responses = map snd general_responses @ [no_information]"

definition failing_llm :: "pystr \<Rightarrow> error + pydict list" where
  "failing_llm prompt = Inl (OtherError (str_of ''CUDA out of memory''))"

definition echo_llm :: "pystr \<Rightarrow> error + pydict list" where
  \<comment> \<open>a backend that continues every prompt with the same word\<close>
  "echo_llm prompt = Inr [[(str_of ''generated_text'', PStr (prompt @ str_of '' Ouaga''))]]"

section \<open>The orchestrator and the chat endpoint\<close>

text \<open>The dict returned by \<open>RAGSystem.chat\<close>.\<close>

record chat_result =
  cr_response :: pystr
  cr_sources :: "pydict list"
  cr_context_used :: bool
  cr_query :: pystr
  cr_num_sources :: int

definition rag_chat :: "rag_config \<Rightarrow> unicode \<Rightarrow> rag_system \<Rightarrow> pystr \<Rightarrow> error + chat_result" where
  \<comment> \<open>\<open>RAGSystem.chat\<close>: retrieve, generate, add \<open>query\<close> and \<open>num_sources\<close>\<close>
  "rag_chat cfg u self query =
     (case retrieve_documents cfg self query None of
        Inl e \<Rightarrow> Inl e
      | Inr retrieved_docs \<Rightarrow>
          (let result = generate_response u self query retrieved_docs
           in Inr \<lparr> cr_response = response result, cr_sources = sources result,
                    cr_context_used = context_used result, cr_query = query,
                    cr_num_sources = int (length retrieved_docs) \<rparr>))"

text \<open>main.py: the request and response models, and the exception of the framework.\<close>

record ChatRequest =
  req_query :: pystr
  req_top_k :: "int option"

record ChatResponse =
  resp_response :: pystr
  resp_message :: pystr
  resp_sources :: "pydict list"
  resp_context_used :: bool
  resp_query :: pystr
  resp_num_sources :: int

datatype http_exception = HTTPException (status_code: int) (detail: pystr)

definition empty_query_detail :: pystr where
  \<comment> \<open>"La requete ne peut pas etre vide", with e circumflex (234) in the two words\<close>
  "empty_query_detail =
     str_of ''La requ'' @ [234] @ str_of ''te ne peut pas '' @ [234] @ str_of ''tre vide''"

definition found_prefix :: pystr where
  \<comment> \<open>"Informations trouvees :" and two newlines, with e acute (233)\<close>
  "found_prefix = str_of ''Informations trouv'' @ [233] @ str_of ''es :'' @ [10, 10]"

definition not_found_message :: pystr where
  "not_found_message =
     str_of ''D'' @ [233] @ str_of ''sol'' @ [233] @ str_of '', je n'' @ [39] @
     str_of ''ai pas trouv'' @ [233] @ str_of '' d'' @ [39] @ str_of ''information pr'' @ [233] @
     str_of ''cise dans mes sources pour votre question.'' @ [10] @
     str_of ''Essayez de reformuler avec des mots-cl'' @ [233] @ str_of ''s (ex: '' @ [39] @
     str_of ''Banfora'' @ [39] @ str_of '', '' @ [39] @ str_of ''FESPACO'' @ [39] @ str_of '', '' @
     [39] @ str_of ''h'' @ [233] @ str_of ''bergement Ouagadougou'' @ [39] @ str_of '').''"

definition fallback_snippets :: "unicode \<Rightarrow> pystr list option \<Rightarrow> ChatRequest \<Rightarrow> pystr \<Rightarrow> pystr list" where
  \<comment> \<open>\<open>find_relevant_snippets(query, getattr(app.state, "sources", []) or [],
      max_results=request.top_k or 5)\<close>\<close>
  "fallback_snippets u app_sources request query =
     (let sources_lines = (case app_sources of None \<Rightarrow> [] | Some lines \<Rightarrow> lines);
          max_results = (case req_top_k request of
                           None \<Rightarrow> 5 | Some k \<Rightarrow> if k = 0 then 5 else k)
      in find_relevant_snippets u query sources_lines max_results)"

definition fallback_answer :: "unicode \<Rightarrow> pystr list option \<Rightarrow> ChatRequest \<Rightarrow> pystr \<Rightarrow> ChatResponse" where
  \<comment> \<open>the \<open>if rag_fallback:\<close> block and the final \<open>ChatResponse(...)\<close>\<close>
  "fallback_answer u app_sources request query =
     (let snippets = fallback_snippets u app_sources request query
      in if snippets \<noteq> [] then
           \<lparr> resp_response = found_prefix @ join [10] snippets,
             resp_message = found_prefix @ join [10] snippets,
             resp_sources = map (\<lambda>s. [(str_of ''text'', PStr s)]) snippets,
             resp_context_used = False,
             resp_query = query,
             resp_num_sources = int (length snippets) \<rparr>
         else
           \<lparr> resp_response = not_found_message, resp_message = not_found_message,
             resp_sources = [], resp_context_used = False, resp_query = query,
             resp_num_sources = 0 \<rparr>)"

text \<open>
  The endpoint. \<open>rag_system\<close> is the module's global, \<open>None\<close> until a system is installed;
  \<open>app_sources\<close> is \<open>app.state.sources\<close>. The handler's last \<open>except Exception\<close> (status 500)
  guards code that raises nothing here: the failures of the RAG system are caught by the
  inner \<open>try\<close>, and the keyword search is total.
\<close>

definition chat ::
  "rag_config \<Rightarrow> unicode \<Rightarrow> rag_system option \<Rightarrow> pystr list option \<Rightarrow> ChatRequest
     \<Rightarrow> http_exception + ChatResponse" where
  "chat cfg u rag_system app_sources request =
     (if req_query request = [] \<or> length (strip u (req_query request)) = 0
      then Inl (HTTPException 400 empty_query_detail)
      else
        (let query = strip u (req_query request) in
         case rag_system of
           None \<Rightarrow> Inr (fallback_answer u app_sources request query)
         | Some rag \<Rightarrow>
             (case rag_chat cfg u rag query of
                Inl e \<Rightarrow> Inr (fallback_answer u app_sources request query)
              | Inr result \<Rightarrow>
                  Inr \<lparr> resp_response = cr_response result,
                        resp_message = cr_response result,
                        resp_sources = cr_sources result,
                        resp_context_used = cr_context_used result,
                        resp_query = query,
                        resp_num_sources = cr_num_sources result \<rparr>)))"

definition broken_rag :: rag_system where
  \<comment> \<open>a system whose vector index cannot be reached\<close>
  "broken_rag = example_rag\<lparr>collection_query :=
     (\<lambda>embeddings k. Inl (OtherError (str_of ''index unreachable'')))\<rparr>"

definition degraded :: "rag_config \<Rightarrow> unicode \<Rightarrow> rag_system option \<Rightarrow> pystr \<Rightarrow> bool" where
  \<comment> \<open>keyword-fallback mode: no RAG system, or its \<open>chat\<close> raised on the query\<close>
  "degraded cfg u rag_system query =
     (case rag_system of
        None \<Rightarrow> True
      | Some rag \<Rightarrow> (case rag_chat cfg u rag query of Inl e \<Rightarrow> True | Inr r \<Rightarrow> False))"

definition blank_query :: pystr where
  \<comment> \<open>a space, a tab and a space\<close>
  "blank_query = [32, 9, 32]"

section \<open>Loading the corpus (data_loader.py, rag_system.py, main.py)\<close>

text \<open>
  The file system, as far as the corpus goes. A file holds a JSON list of documents
  (\<open>JsonDocuments\<close>); or UTF-8 text that is not a JSON document (\<open>NotJson\<close>); or bytes that
  are not UTF-8, as a corpus cut inside a multi-byte character is (\<open>Undecodable\<close>); or JSON
  nested deeper than the interpreter's recursion limit (\<open>TooDeep\<close>); or it cannot be
  opened by this process (\<open>Unreadable\<close>). \<open>fs_writable\<close> says where \<open>open(path, 'w')\<close>
  succeeds.
\<close>

datatype corpus_file =
  JsonDocuments "corpus_doc list" | NotJson | Undecodable | TooDeep | Unreadable

record filesystem =
  fs_files :: "pystr \<Rightarrow> corpus_file option"
  fs_writable :: "pystr \<Rightarrow> bool"

definition open_json_load :: "filesystem \<Rightarrow> pystr \<Rightarrow> error + corpus_doc list" where
  \<comment> \<open>\<open>with open(path, 'r', encoding='utf-8') as f: json.load(f)\<close>: \<open>open\<close> raises for a
      missing or unreadable file, the read inside \<open>json.load\<close> decodes the bytes, then the
      text is parsed\<close>
  "open_json_load fs path =
     (case fs_files fs path of
        None \<Rightarrow> Inl FileNotFoundError
      | Some Unreadable \<Rightarrow> Inl (OtherError (str_of ''PermissionError''))
      | Some Undecodable \<Rightarrow> Inl UnicodeDecodeError
      | Some TooDeep \<Rightarrow> Inl RecursionError
      | Some NotJson \<Rightarrow> Inl JSONDecodeError
      | Some (JsonDocuments docs) \<Rightarrow> Inr docs)"

text \<open>
  The vector collection is the function that answers queries. Adding to it and
  resetting it are operations of the vector database, outside the repository.
\<close>

type_synonym collection = "real list list \<Rightarrow> int \<Rightarrow> error + query_result"

record chroma =
  collection_add ::
    "collection \<Rightarrow> pystr list \<Rightarrow> real list list \<Rightarrow> pydict list \<Rightarrow> pystr list \<Rightarrow> error + collection"
  collection_reset :: "collection \<Rightarrow> error + collection"

definition add_documents :: "chroma \<Rightarrow> rag_system \<Rightarrow> corpus_doc list \<Rightarrow> error + rag_system" where
  "add_documents db self docs =
     (let texts = map cd_text docs;
          doc_ids = map cd_id docs;
          metas = map (\<lambda>doc. case cd_metadata doc of None \<Rightarrow> [] | Some m \<Rightarrow> m) docs
      in case encode self texts of
           Inl e \<Rightarrow> Inl e
         | Inr embeddings \<Rightarrow>
             (case collection_add db (collection_query self) doc_ids embeddings metas texts of
                Inl e \<Rightarrow> Inl e
              | Inr c \<Rightarrow> Inr (self\<lparr>collection_query := c\<rparr>)))"

definition load_corpus :: "chroma \<Rightarrow> filesystem \<Rightarrow> rag_system \<Rightarrow> pystr \<Rightarrow> error + rag_system" where
  \<comment> \<open>the \<open>try\<close> body, then \<open>except FileNotFoundError\<close> and \<open>except json.JSONDecodeError\<close>\<close>
  "load_corpus db fs self corpus_path =
     (case (case open_json_load fs corpus_path of
              Inl e \<Rightarrow> Inl e
            | Inr docs \<Rightarrow> add_documents db self docs) of
        Inl FileNotFoundError \<Rightarrow> Inr self
      | Inl JSONDecodeError \<Rightarrow> Inr self
      | Inl e \<Rightarrow> Inl e
      | Inr self' \<Rightarrow> Inr self')"

definition clear_database :: "chroma \<Rightarrow> rag_system \<Rightarrow> rag_system" where
  \<comment> \<open>delete and re-create the collection; \<open>except Exception\<close> only logs\<close>
  "clear_database db self =
     (case collection_reset db (collection_query self) of
        Inl e \<Rightarrow> self
      | Inr c \<Rightarrow> self\<lparr>collection_query := c\<rparr>)"

subsection \<open>The data loader\<close>

fun collapse_ws :: "unicode \<Rightarrow> bool \<Rightarrow> pystr \<Rightarrow> pystr" where
  \<comment> \<open>\<open>re.sub(r'\s+', ' ', text)\<close>; the flag says the scan is inside a run of whitespace\<close>
  "collapse_ws u in_run [] = []"
| "collapse_ws u in_run (c # cs) =
     (if u_isspace u c then (if in_run then collapse_ws u True cs else 32 # collapse_ws u True cs)
      else c # collapse_ws u False cs)"

definition drop_control :: "pystr \<Rightarrow> pystr" where
  \<comment> \<open>\<open>re.sub(r'[\x00-\x1f\x7f-\x9f]', '', text)\<close>\<close>
  "drop_control s = filter (\<lambda>c. \<not> (c \<le> 31 \<or> (127 \<le> c \<and> c \<le> 159))) s"

function strip_tags :: "pystr \<Rightarrow> pystr" where
  \<comment> \<open>\<open>re.sub(r'<[^>]+>', '', text)\<close>: 60 is \<open><\<close>, 62 is \<open>>\<close>\<close>
  "strip_tags [] = []"
| "strip_tags (c # cs) =
     (if c = 60 \<and> takeWhile (\<lambda>x. x \<noteq> 62) cs \<noteq> [] \<and> dropWhile (\<lambda>x. x \<noteq> 62) cs \<noteq> []
      then strip_tags (tl (dropWhile (\<lambda>x. x \<noteq> 62) cs))
      else c # strip_tags cs)"
  by pat_completeness auto
termination
  by (relation "measure length")
    (auto simp: less_Suc_eq_le intro!: le_trans[OF diff_le_self length_dropWhile_le])

definition clean_text :: "unicode \<Rightarrow> pystr \<Rightarrow> pystr" where
  "clean_text u text = strip u (strip_tags (drop_control (collapse_ws u False text)))"

definition add_document ::
  "unicode \<Rightarrow> pystr \<Rightarrow> data_loader \<Rightarrow> pystr \<Rightarrow> pystr \<Rightarrow> pystr \<Rightarrow> pystr \<Rightarrow> pystr \<Rightarrow> data_loader" where
  \<comment> \<open>\<open>now\<close> is \<open>datetime.now().isoformat()\<close> at the call\<close>
  "add_document u now self text title url category source_type =
     (let cleaned_text = clean_text u text in
      if length cleaned_text < 50 then self
      else
        (let document =
               \<lparr> cd_id = str_of ''doc_'' @ str_nat (length (dl_documents self) + 1),
                 cd_text = cleaned_text,
                 cd_metadata = Some
                   [(str_of ''title'', PStr title), (str_of ''url'', PStr url),
                    (str_of ''category'', PStr category),
                    (str_of ''source_type'', PStr source_type),
                    (str_of ''added_date'', PStr now)] \<rparr>
         in self\<lparr> dl_documents := dl_documents self @ [document],
                  dl_sources := (if url \<noteq> [] then insert url (dl_sources self)
                                 else dl_sources self) \<rparr>))"

text \<open>
  \<open>add_sample_data\<close> adds the module's sample documents, each a text, a title and a
  category, through \<open>add_document\<close> with \<open>source_type="manual"\<close> and no URL. The table is
  the argument \<open>samples\<close>; \<open>clock\<close> gives the time read at each call.
\<close>

fun add_samples ::
  "unicode \<Rightarrow> (nat \<Rightarrow> pystr) \<Rightarrow> nat \<Rightarrow> (pystr \<times> pystr \<times> pystr) list \<Rightarrow> data_loader \<Rightarrow> data_loader" where
  "add_samples u clock n [] self = self"
| "add_samples u clock n ((text, title, category) # rest) self =
     add_samples u clock (Suc n) rest
       (add_document u (clock n) self text title [] category (str_of ''manual''))"

definition add_sample_data ::
  "unicode \<Rightarrow> (nat \<Rightarrow> pystr) \<Rightarrow> (pystr \<times> pystr \<times> pystr) list \<Rightarrow> data_loader \<Rightarrow> data_loader" where
  "add_sample_data u clock samples self = add_samples u clock 0 samples self"

definition save_corpus :: "filesystem \<Rightarrow> data_loader \<Rightarrow> error + filesystem" where
  \<comment> \<open>\<open>mkdir\<close>, \<open>open(path, 'w')\<close>, \<open>json.dump(self.documents, f)\<close>\<close>
  "save_corpus fs self =
     (if fs_writable fs (dl_corpus_path self)
      then Inr (fs\<lparr>fs_files := (fs_files fs)(dl_corpus_path self \<mapsto> JsonDocuments (dl_documents self))\<rparr>)
      else Inl (OtherError (str_of ''PermissionError'')))"

subsection \<open>The administrative endpoint\<close>

record InitResponse =
  init_status :: pystr
  documents_loaded :: int
  init_message :: pystr

record app_state =
  app_rag_system :: "rag_system option"
  app_data_loader :: "data_loader option"
  app_fs :: filesystem

definition init_failed :: http_exception where
  "init_failed = HTTPException 500 (str_of ''Erreur lors de l'' @ [39] @ str_of ''initialisation du corpus'')"

definition init_unavailable :: http_exception where
  "init_unavailable = HTTPException 503 (str_of ''Le syst'' @ [232] @ str_of ''me n'' @ [39] @
     str_of ''est pas initialis'' @ [233])"

definition init_success :: "int \<Rightarrow> InitResponse" where
  "init_success n =
     \<lparr> init_status = str_of ''success'', documents_loaded = n,
       init_message = str_of ''Corpus initialis'' @ [233] @ str_of '' avec '' @ str_nat (nat n) @
         str_of '' documents'' \<rparr>"

definition initialize_corpus ::
  "chroma \<Rightarrow> unicode \<Rightarrow> (nat \<Rightarrow> pystr) \<Rightarrow> (pystr \<times> pystr \<times> pystr) list \<Rightarrow> pystr \<Rightarrow> app_state
     \<Rightarrow> (http_exception + InitResponse) \<times> app_state" where
  \<comment> \<open>\<open>corpus_path\<close> is the constant \<open>CORPUS_PATH\<close>; every exception inside is answered by 500\<close>
  "initialize_corpus db u clock samples corpus_path st =
     (case (app_rag_system st, app_data_loader st) of
        (Some rag, Some loader) \<Rightarrow>
          (let rag1 = clear_database db rag;
               loader1 = add_sample_data u clock samples loader;
               st1 = st\<lparr>app_rag_system := Some rag1, app_data_loader := Some loader1\<rparr>
           in case save_corpus (app_fs st) loader1 of
                Inl e \<Rightarrow> (Inl init_failed, st1)
              | Inr fs1 \<Rightarrow>
                  (case load_corpus db fs1 rag1 corpus_path of
                     Inl e \<Rightarrow> (Inl init_failed, st1\<lparr>app_fs := fs1\<rparr>)
                   | Inr rag2 \<Rightarrow>
                       (case get_statistics u loader1 of
                          Inl e \<Rightarrow>
                            (Inl init_failed, st1\<lparr>app_fs := fs1, app_rag_system := Some rag2\<rparr>)
                        | Inr stats \<Rightarrow>
                            (Inr (init_success (total_documents stats)),
                             st1\<lparr>app_fs := fs1, app_rag_system := Some rag2\<rparr>))))
      | _ \<Rightarrow> (Inl init_unavailable, st))"

subsection \<open>A small deployment, for concrete runs\<close>

definition example_chroma :: chroma where
  \<comment> \<open>a vector database that stores what it is given and answers with the first \<open>k\<close> entries\<close>
  "example_chroma =
     \<lparr> collection_add = (\<lambda>c doc_ids embeddings metas texts.
          Inr (\<lambda>q k. Inr \<lparr> ids = [take (nat k) doc_ids],
                            distances = Some [take (nat k) (map (\<lambda>e. 0) embeddings)],
                            documents = Some [take (nat k) texts],
                            metadatas = Some [take (nat k) metas] \<rparr>)),
       collection_reset = (\<lambda>c.
          Inr (\<lambda>q k. Inr \<lparr> ids = [[]], distances = Some [[]], documents = Some [[]],
                            metadatas = Some [[]] \<rparr>)) \<rparr>"

definition CORPUS_PATH :: pystr where
  "CORPUS_PATH = str_of ''data/corpus.json''"

definition example_samples :: "(pystr \<times> pystr \<times> pystr) list" where
  "example_samples =
     [(str_of ''Ouagadougou est la capitale du Burkina Faso, au centre du pays.'',
       str_of ''Ouagadougou'', str_of ''tourisme'')]"

definition example_clock :: "nat \<Rightarrow> pystr" where
  "example_clock n = str_of ''2024-01-01T00:00:00''"

definition example_loader :: data_loader where
  \<comment> \<open>a loader constructed with a corpus path of its own\<close>
  "example_loader =
     \<lparr> dl_corpus_path = str_of ''tmp/corpus.json'', dl_documents = [], dl_sources = {} \<rparr>"

definition example_state :: app_state where
  "example_state =
     \<lparr> app_rag_system = Some example_rag, app_data_loader = Some example_loader,
       app_fs = \<lparr> fs_files = (\<lambda>path. None), fs_writable = (\<lambda>path. True) \<rparr> \<rparr>"

definition example_saved_fs :: filesystem where
  \<comment> \<open>the file system after the loader has saved its corpus\<close>
  "example_saved_fs =
     \<lparr> fs_files = (\<lambda>path. None)(str_of ''tmp/corpus.json'' \<mapsto>
         JsonDocuments (dl_documents
           (add_sample_data latin1 example_clock example_samples example_loader))),
       fs_writable = (\<lambda>path. True) \<rparr>"

definition example_truncated_fs :: filesystem where
  \<comment> \<open>the corpus file was cut inside a multi-byte character\<close>
  "example_truncated_fs =
     \<lparr> fs_files = (\<lambda>path. None)(CORPUS_PATH \<mapsto> Undecodable), fs_writable = (\<lambda>path. True) \<rparr>"

definition example_truncated_state :: app_state where
  "example_truncated_state = example_state\<lparr>app_fs := example_truncated_fs\<rparr>"

definition example_malformed_fs :: filesystem where
  "example_malformed_fs =
     \<lparr> fs_files = (\<lambda>path. None)(CORPUS_PATH \<mapsto> NotJson), fs_writable = (\<lambda>path. True) \<rparr>"

section \<open>Properties of the retriever\<close>

lemmas example_defs = example_rag_def example_index_def RAG_CONFIG_def retrieve_documents_def
  format_results_def subscript_def subscript2_def distance_at_def truthy_def Let_def
  example_match_def raw_neighbours_def row0_def distance_row_def

lemma example_retrieve_default:
  "retrieve_documents RAG_CONFIG example_rag (str_of ''capitale'') None =
     Inr [example_match 0, example_match 1]"
  by (simp add: example_defs)

lemma example_retrieve_0:
  "retrieve_documents RAG_CONFIG example_rag (str_of ''capitale'') (Some 0) = Inl TypeError"
  by (simp add: example_defs)

lemma example_retrieve_1:
  "retrieve_documents RAG_CONFIG example_rag (str_of ''capitale'') (Some 1) =
     Inr [example_match 0]"
  by (simp add: example_defs)

lemma length_raw_neighbours:
  "wf_result results \<Longrightarrow> length (raw_neighbours results) = length (row0 (Some (ids results)))"
  by (simp add: wf_result_def raw_neighbours_def)

lemma raw_neighbours_nth:
  assumes "wf_result results" and "n < length (row0 (Some (ids results)))"
  shows "raw_neighbours results ! n =
    \<lparr> doc_id = row0 (Some (ids results)) ! n, doc_text = row0 (documents results) ! n,
      doc_metadata = row0 (metadatas results) ! n,
      doc_similarity = 1 - distance_row results ! n \<rparr>"
  using assms by (simp add: wf_result_def raw_neighbours_def)

lemma subscript2_row0:
  "n < length (row0 table) \<Longrightarrow> subscript2 table n = Inr (row0 table ! n)"
  by (auto simp: subscript2_def subscript_def row0_def split: option.splits list.splits)

lemma distance_at_row:
  assumes "length (distance_row results) = length (row0 (Some (ids results)))"
    and "n < length (row0 (Some (ids results)))"
  shows "distance_at results n = Inr (distance_row results ! n)"
  using assms
  by (auto simp: distance_at_def distance_row_def subscript2_row0)

text \<open>On a well-formed answer the loop is a filter of the raw list, from any position on.\<close>

lemma retrieve_loop_filter:
  assumes wf: "wf_result results"
  shows "n \<le> length (row0 (Some (ids results))) \<Longrightarrow>
    retrieve_loop cfg results (enumerate n (drop n (row0 (Some (ids results))))) acc =
      Inr (acc @ filter (above_threshold cfg) (drop n (raw_neighbours results)))"
proof (induction "length (row0 (Some (ids results))) - n" arbitrary: n acc)
  case 0
  then show ?case using wf by (simp add: length_raw_neighbours)
next
  case (Suc m)
  let ?first = "row0 (Some (ids results))"
  from Suc have n: "n < length ?first" by simp
  have d1: "drop n ?first = ?first ! n # drop (Suc n) ?first"
    using n by (simp add: Cons_nth_drop_Suc)
  have d2: "drop n (raw_neighbours results) =
      raw_neighbours results ! n # drop (Suc n) (raw_neighbours results)"
    using n wf by (simp add: Cons_nth_drop_Suc length_raw_neighbours)
  have ih: "\<And>acc. retrieve_loop cfg results (enumerate (Suc n) (drop (Suc n) ?first)) acc =
      Inr (acc @ filter (above_threshold cfg) (drop (Suc n) (raw_neighbours results)))"
    using Suc.hyps(1)[of "Suc n"] Suc.hyps(2) n by simp
  have dist: "distance_at results n = Inr (distance_row results ! n)"
    using wf n by (simp add: distance_at_row wf_result_def)
  have tx: "subscript2 (documents results) n = Inr (row0 (documents results) ! n)"
    using wf n by (simp add: subscript2_row0 wf_result_def)
  have md: "subscript2 (metadatas results) n = Inr (row0 (metadatas results) ! n)"
    using wf n by (simp add: subscript2_row0 wf_result_def)
  show ?case
    unfolding d1 d2
    by (simp add: dist tx md ih raw_neighbours_nth[OF wf n] above_threshold_def Let_def)
qed

lemma format_results_filter:
  assumes wf: "wf_result results"
  shows "format_results cfg results = Inr (filter (above_threshold cfg) (raw_neighbours results))"
proof (cases "ids results")
  case Nil
  then show ?thesis by (simp add: format_results_def raw_neighbours_def row0_def)
next
  case (Cons first others)
  then have r: "row0 (Some (ids results)) = first" by (simp add: row0_def)
  show ?thesis
    using retrieve_loop_filter[OF wf, of 0 cfg "[]"] Cons r
    by (simp add: format_results_def)
qed

lemma retrieve_loop_length:
  "retrieve_loop cfg results todo acc = Inr docs \<Longrightarrow> length docs \<le> length acc + length todo"
proof (induction cfg results todo acc rule: retrieve_loop.induct)
  case (1 cfg results retrieved_docs)
  then show ?case by simp
next
  case (2 cfg results i did rest retrieved_docs)
  then show ?case
    by (fastforce simp: Let_def split: sum.splits if_splits)
qed

lemma format_results_length:
  "format_results cfg results = Inr docs \<Longrightarrow> length docs \<le> length (row0 (Some (ids results)))"
  by (auto simp: format_results_def row0_def split: list.splits dest: retrieve_loop_length)

lemma format_results_empty:
  "row0 (Some (ids results)) = [] \<Longrightarrow> format_results cfg results = Inr []"
  by (auto simp: format_results_def row0_def split: list.splits)

lemma retrieve_documents_unfold:
  "encode self [query] = Inr (qe # others) \<Longrightarrow>
   collection_query self [qe] (case top_k_arg of None \<Rightarrow> top_k cfg | Some k \<Rightarrow> k) = Inr results \<Longrightarrow>
   retrieve_documents cfg self query top_k_arg = format_results cfg results"
  by (simp add: retrieve_documents_def subscript_def)

lemma similarity_raw_neighbours:
  assumes "wf_result results"
  shows "map doc_similarity (raw_neighbours results) = map (\<lambda>d. 1 - d) (distance_row results)"
proof (rule nth_equalityI)
  show "length (map doc_similarity (raw_neighbours results)) =
        length (map (\<lambda>d. 1 - d) (distance_row results))"
    using assms by (simp add: wf_result_def raw_neighbours_def)
next
  fix i assume "i < length (map doc_similarity (raw_neighbours results))"
  then have i: "i < length (row0 (Some (ids results)))"
    using assms by (simp add: length_raw_neighbours)
  then have j: "i < length (distance_row results)"
    using assms by (simp add: wf_result_def)
  show "map doc_similarity (raw_neighbours results) ! i =
        map (\<lambda>d. 1 - d) (distance_row results) ! i"
    using i j assms by (simp add: length_raw_neighbours raw_neighbours_nth)
qed

lemma sorted_raw_neighbours:
  assumes "wf_result results" "sorted (distance_row results)"
  shows "sorted_wrt (\<lambda>a b. doc_similarity a \<ge> doc_similarity b) (raw_neighbours results)"
proof -
  have "sorted_wrt (\<lambda>x y. x \<le> y) (distance_row results)"
    using assms(2) by simp
  then have "sorted_wrt (\<lambda>x y. 1 - x \<ge> 1 - y) (distance_row results)"
    by simp
  then have "sorted_wrt (\<lambda>a b. a \<ge> b) (map (\<lambda>d. 1 - d) (distance_row results))"
    by (simp only: sorted_wrt_map)
  then have "sorted_wrt (\<lambda>a b. a \<ge> b) (map doc_similarity (raw_neighbours results))"
    by (simp only: similarity_raw_neighbours[OF assms(1)])
  then show ?thesis
    by (simp only: sorted_wrt_map)
qed

lemma retrieve_loop_threshold:
  "retrieve_loop cfg results todo acc = Inr docs \<Longrightarrow>
   \<forall>d \<in> set acc. doc_similarity d \<ge> similarity_threshold cfg \<Longrightarrow>
   \<forall>d \<in> set docs. doc_similarity d \<ge> similarity_threshold cfg"
proof (induction cfg results todo acc rule: retrieve_loop.induct)
  case (1 cfg results retrieved_docs)
  then show ?case by simp
next
  case (2 cfg results i did rest retrieved_docs)
  then show ?case
    by (auto simp: Let_def split: sum.splits if_splits)
qed

lemma retrieve_documents_format:
  "retrieve_documents cfg self query k = Inr docs \<Longrightarrow>
   \<exists>results. format_results cfg results = Inr docs"
  by (auto simp: retrieve_documents_def Let_def split: sum.splits)

text \<open>
  C1. Whatever the query and \<open>top_k\<close>, every match that \<open>retrieve_documents\<close> returns has
  a similarity at or above the configured threshold: no match below it is in the list.
\<close>

theorem retrieve_documents_threshold:
  "retrieve_documents cfg self query top_k_arg = Inr docs \<Longrightarrow> d \<in> set docs \<Longrightarrow>
   doc_similarity d \<ge> similarity_threshold cfg"
proof -
  assume r: "retrieve_documents cfg self query top_k_arg = Inr docs" and d: "d \<in> set docs"
  from r obtain results where "format_results cfg results = Inr docs"
    using retrieve_documents_format by blast
  then have "\<forall>d \<in> set docs. doc_similarity d \<ge> similarity_threshold cfg"
    by (auto simp: format_results_def split: list.splits dest: retrieve_loop_threshold)
  with d show ?thesis by blast
qed

theorem retrieve_documents_threshold_witness:
  "retrieve_documents RAG_CONFIG example_rag (str_of ''capitale'') None =
     Inr [example_match 0, example_match 1] \<and>
   example_match 1 \<in> set [example_match 0, example_match 1] \<and>
   doc_similarity (example_match 1) \<ge> similarity_threshold RAG_CONFIG"
proof -
  have m: "example_match 1 \<in> set [example_match 0, example_match 1]" by simp
  show ?thesis
    using retrieve_documents_threshold[OF example_retrieve_default m] example_retrieve_default m
    by simp
qed

lemma retrieve_documents_raises:
  "encode self [query] = Inr (qe # others) \<Longrightarrow>
   collection_query self [qe] (case top_k_arg of None \<Rightarrow> top_k cfg | Some k \<Rightarrow> k) = Inl e \<Longrightarrow>
   retrieve_documents cfg self query top_k_arg = Inl e"
  by (simp add: retrieve_documents_def subscript_def)

text \<open>
  C4, as the claim states it, fails for \<open>k = 0\<close>: \<open>retrieve_documents\<close> hands \<open>top_k\<close> to the
  vector index as \<open>n_results\<close> without a guard, so with an index that refuses zero results
  the call raises instead of returning the empty list.
\<close>

theorem retrieve_documents_zero_counterexample:
  "retrieve_documents RAG_CONFIG example_rag (str_of ''capitale'') (Some 0) = Inl TypeError \<and>
   retrieve_documents RAG_CONFIG example_rag (str_of ''capitale'') (Some 0) \<noteq> Inr []"
  by (simp add: example_retrieve_0)

text \<open>
  C4, amended. When the vector index answers the query for \<open>n_results = k\<close>, a list that
  \<open>retrieve_documents(query, top_k=k)\<close> returns has at most as many matches as the index
  returned ids, hence at most \<open>k\<close> for \<open>k \<ge> 0\<close> when the index returned at most \<open>k\<close> ids,
  and it is the empty list when the index returned no id (an empty index gives the empty
  list, not an error). When the index raises for \<open>n_results = k\<close>, \<open>retrieve_documents\<close>
  raises the same error.
\<close>

theorem retrieve_documents_length_bound:
  assumes "encode self [query] = Inr (qe # others)"
  shows "(\<forall>results. collection_query self [qe] k = Inr results \<longrightarrow>
            (case retrieve_documents cfg self query (Some k) of
               Inl e \<Rightarrow> True
             | Inr docs \<Rightarrow>
                 length docs \<le> length (row0 (Some (ids results))) \<and>
                 (0 \<le> k \<and> length (row0 (Some (ids results))) \<le> nat k \<longrightarrow>
                    int (length docs) \<le> k)) \<and>
            (row0 (Some (ids results)) = [] \<longrightarrow>
               retrieve_documents cfg self query (Some k) = Inr [])) \<and>
         (\<forall>e. collection_query self [qe] k = Inl e \<longrightarrow>
            retrieve_documents cfg self query (Some k) = Inl e)"
proof (intro conjI allI impI)
  fix results
  assume q: "collection_query self [qe] k = Inr results"
  have u: "retrieve_documents cfg self query (Some k) = format_results cfg results"
    using assms q by (simp add: retrieve_documents_unfold)
  have b: "length docs \<le> length (row0 (Some (ids results))) \<and>
           (0 \<le> k \<and> length (row0 (Some (ids results))) \<le> nat k \<longrightarrow> int (length docs) \<le> k)"
    if "format_results cfg results = Inr docs" for docs
    using format_results_length[OF that] by linarith
  show "case retrieve_documents cfg self query (Some k) of
          Inl e \<Rightarrow> True
        | Inr docs \<Rightarrow>
            length docs \<le> length (row0 (Some (ids results))) \<and>
            (0 \<le> k \<and> length (row0 (Some (ids results))) \<le> nat k \<longrightarrow> int (length docs) \<le> k)"
    unfolding u using b by (cases "format_results cfg results") simp_all
  show "retrieve_documents cfg self query (Some k) = Inr []"
    if "row0 (Some (ids results)) = []"
    unfolding u using that by (rule format_results_empty)
next
  fix e
  assume "collection_query self [qe] k = Inl e"
  then show "retrieve_documents cfg self query (Some k) = Inl e"
    using assms by (simp add: retrieve_documents_raises)
qed

theorem retrieve_documents_length_bound_witness:
  "retrieve_documents RAG_CONFIG example_rag (str_of ''capitale'') (Some 1) =
     Inr [example_match 0] \<and>
   length [example_match 0] \<le> length (row0 (Some (ids (example_index 1)))) \<and>
   int (length [example_match 0]) \<le> 1 \<and>
   retrieve_documents RAG_CONFIG empty_rag (str_of ''capitale'') (Some 1) = Inr [] \<and>
   collection_query example_rag [[1, 0]] 0 = Inl TypeError \<and>
   retrieve_documents RAG_CONFIG example_rag (str_of ''capitale'') (Some 0) = Inl TypeError"
proof -
  have e: "encode example_rag [str_of ''capitale''] = Inr ([1, 0] # [])"
    by (simp add: example_rag_def)
  have e': "encode empty_rag [str_of ''capitale''] = Inr ([1, 0] # [])"
    by (simp add: empty_rag_def example_rag_def)
  have q1: "collection_query example_rag [[1, 0]] 1 = Inr (example_index 1)"
    by (simp add: example_rag_def)
  have q0: "collection_query example_rag [[1, 0]] 0 = Inl TypeError"
    by (simp add: example_rag_def)
  have qe: "collection_query empty_rag [[1, 0]] 1 =
      Inr \<lparr> ids = [[]], distances = Some [[]], documents = Some [[]], metadatas = Some [[]] \<rparr>"
    by (simp add: empty_rag_def)
  have l: "length (row0 (Some (ids (example_index 1)))) \<le> nat 1"
    by (simp add: example_index_def row0_def)
  have z: "row0 (Some (ids \<lparr> ids = [[]], distances = Some [[]], documents = Some [[]],
      metadatas = Some [[]] \<rparr>)) = ([]::pystr list)"
    by (simp add: row0_def)
  note t1 = retrieve_documents_length_bound[OF e, of 1 RAG_CONFIG]
  note t0 = retrieve_documents_length_bound[OF e, of 0 RAG_CONFIG]
  note te = retrieve_documents_length_bound[OF e', of 1 RAG_CONFIG]
  from t1 q1 have b: "case retrieve_documents RAG_CONFIG example_rag (str_of ''capitale'') (Some 1) of
      Inl e \<Rightarrow> True
    | Inr docs \<Rightarrow>
        length docs \<le> length (row0 (Some (ids (example_index 1)))) \<and>
        ((0::int) \<le> 1 \<and> length (row0 (Some (ids (example_index 1)))) \<le> nat 1 \<longrightarrow>
           int (length docs) \<le> 1)"
    by blast
  from b l have b1: "length [example_match 0] \<le> length (row0 (Some (ids (example_index 1))))"
    and b2: "int (length [example_match 0]) \<le> 1"
    by (simp_all add: example_retrieve_1)
  from te qe z have em: "retrieve_documents RAG_CONFIG empty_rag (str_of ''capitale'') (Some 1) =
      Inr []"
    by blast
  from t0 q0 have r0: "retrieve_documents RAG_CONFIG example_rag (str_of ''capitale'') (Some 0) =
      Inl TypeError"
    by blast
  from example_retrieve_1 b1 b2 em q0 r0 show ?thesis by blast
qed

text \<open>
  C5. When the vector index answers with one well-formed list of neighbours in ascending
  distance, \<open>retrieve_documents\<close> returns exactly the neighbours at or above the threshold,
  in the index's order: the result is a subsequence of the raw nearest-neighbour list
  (the filter removes elements and never reorders) and its similarities never increase.
\<close>

theorem retrieve_documents_ordered_subsequence:
  assumes "encode self [query] = Inr (qe # others)"
    and "collection_query self [qe] (case top_k_arg of None \<Rightarrow> top_k cfg | Some k \<Rightarrow> k)
           = Inr results"
    and "wf_result results"
    and "sorted (distance_row results)"
  shows "retrieve_documents cfg self query top_k_arg =
           Inr (filter (above_threshold cfg) (raw_neighbours results)) \<and>
         subseq (filter (above_threshold cfg) (raw_neighbours results)) (raw_neighbours results) \<and>
         sorted_wrt (\<lambda>a b. doc_similarity a \<ge> doc_similarity b)
           (filter (above_threshold cfg) (raw_neighbours results))"
proof -
  have r: "retrieve_documents cfg self query top_k_arg = format_results cfg results"
    using assms(1,2) by (rule retrieve_documents_unfold)
  have s: "sorted_wrt (\<lambda>a b. doc_similarity a \<ge> doc_similarity b)
           (filter (above_threshold cfg) (raw_neighbours results))"
    using sorted_raw_neighbours[OF assms(3,4)] by (rule sorted_wrt_filter)
  show ?thesis
    using r s format_results_filter[OF assms(3), of cfg] by simp
qed

theorem retrieve_documents_ordered_subsequence_witness:
  "wf_result (example_index 5) \<and> sorted (distance_row (example_index 5)) \<and>
   retrieve_documents RAG_CONFIG example_rag (str_of ''capitale'') None =
     Inr (filter (above_threshold RAG_CONFIG) (raw_neighbours (example_index 5))) \<and>
   filter (above_threshold RAG_CONFIG) (raw_neighbours (example_index 5)) =
     [example_match 0, example_match 1] \<and>
   subseq [example_match 0, example_match 1] (raw_neighbours (example_index 5)) \<and>
   sorted_wrt (\<lambda>a b. doc_similarity a \<ge> doc_similarity b) [example_match 0, example_match 1]"
proof -
  have e: "encode example_rag [str_of ''capitale''] = Inr ([1, 0] # [])"
    by (simp add: example_rag_def)
  have q: "collection_query example_rag [[1, 0]]
      (case None of None \<Rightarrow> top_k RAG_CONFIG | Some k \<Rightarrow> k) = Inr (example_index 5)"
    by (simp add: example_rag_def RAG_CONFIG_def)
  have w: "wf_result (example_index 5)"
    by (simp add: wf_result_def example_index_def row0_def distance_row_def truthy_def)
  have s: "sorted (distance_row (example_index 5))"
    by (simp add: example_index_def row0_def distance_row_def truthy_def)
  have f: "filter (above_threshold RAG_CONFIG) (raw_neighbours (example_index 5)) =
      [example_match 0, example_match 1]"
    by (simp add: example_defs above_threshold_def)
  show ?thesis
    using retrieve_documents_ordered_subsequence[OF e q w s] w s f
    by simp
qed

section \<open>Properties of the statistics\<close>

lemma get_statistics_example:
  "map_sum id average_doc_length
     (get_statistics latin1
        \<lparr> dl_corpus_path = str_of ''data/corpus.json'',
          dl_documents =
            [\<lparr> cd_id = str_of ''doc_1'', cd_text = str_of ''Banfora falls'', cd_metadata = None \<rparr>,
             \<lparr> cd_id = str_of ''doc_2'', cd_text = str_of ''FESPACO'', cd_metadata = None \<rparr>],
          dl_sources = {} \<rparr>) = Inr 10"
  by (simp add: get_statistics_def floordiv_def Let_def str_of_def)

text \<open>
  C10. \<open>get_statistics\<close> returns for every document list: the division is only evaluated
  when there is at least one document, so it never raises ZeroDivisionError. An empty
  corpus has \<open>average_doc_length = 0\<close>; otherwise \<open>average_doc_length\<close> is the floor of
  \<open>total_characters / total_documents\<close>.
\<close>

theorem get_statistics_total:
  "\<exists>st. get_statistics u self = Inr st \<and>
     total_documents st = int (length (dl_documents self)) \<and>
     total_characters st = (\<Sum>doc \<leftarrow> dl_documents self. int (length (cd_text doc))) \<and>
     average_doc_length st =
       (if dl_documents self = [] then 0 else total_characters st div total_documents st)"
  by (cases "dl_documents self") (simp_all add: get_statistics_def floordiv_def Let_def)

section \<open>Properties of the keyword search\<close>

lemma contains_sublist: "contains w s \<longleftrightarrow> sublist w s"
  by (induction s) (auto simp: sublist_Cons_right)

text \<open>Inside a run of fewer than three word characters the scan finds nothing.\<close>

lemma findall_skip_short:
  "length (takeWhile (u_isword u) s) < 3 \<Longrightarrow>
   findall_w3 u s = findall_w3 u (dropWhile (u_isword u) s)"
proof (induction s)
  case Nil
  then show ?case by simp
next
  case (Cons c cs)
  show ?case
  proof (cases "u_isword u c")
    case True
    with Cons.prems have short: "length (takeWhile (u_isword u) cs) < 3" by simp
    have "findall_w3 u (c # cs) = findall_w3 u cs"
      using Cons.prems by (simp add: Let_def)
    also have "\<dots> = findall_w3 u (dropWhile (u_isword u) cs)"
      using Cons.IH short by simp
    finally show ?thesis using True by simp
  next
    case False
    then show ?thesis by simp
  qed
qed

lemma findall_w3_runs:
  "findall_w3 u s = filter (\<lambda>w. length w \<ge> 3) (word_runs u s)"
proof (induction u s rule: word_runs.induct)
  case (1 u)
  then show ?case by simp
next
  case (2 u c cs)
  show ?case
  proof (cases "u_isword u c")
    case False
    then show ?thesis using 2 by (simp add: Let_def)
  next
    case True
    let ?m = "takeWhile (u_isword u) (c # cs)"
    have ih: "findall_w3 u (dropWhile (u_isword u) (c # cs)) =
        filter (\<lambda>w. length w \<ge> 3) (word_runs u (dropWhile (u_isword u) (c # cs)))"
      using 2(1)[OF True] .
    show ?thesis
    proof (cases "length ?m \<ge> 3")
      case long: True
      have "findall_w3 u (c # cs) = ?m # findall_w3 u (drop (length ?m) (c # cs))"
        using long by (simp add: Let_def)
      also have "drop (length ?m) (c # cs) = dropWhile (u_isword u) (c # cs)"
        by (simp only: dropWhile_eq_drop)
      finally show ?thesis using True long ih by simp
    next
      case short: False
      then have "findall_w3 u (c # cs) = findall_w3 u (dropWhile (u_isword u) (c # cs))"
        by (intro findall_skip_short) simp
      then show ?thesis using True short ih by simp
    qed
  qed
qed

text \<open>While fewer than \<open>m\<close> lines are collected, the loop takes the first \<open>m\<close> matches.\<close>

lemma snippets_loop_take:
  "int (length acc) < m \<Longrightarrow>
   snippets_loop u words m lines acc =
     take (nat m) (acc @ filter (\<lambda>line. list_ex (\<lambda>w. contains w (u_lower u line)) words) lines)"
proof (induction lines arbitrary: acc)
  case Nil
  then show ?case by simp
next
  case (Cons line rest)
  show ?case
  proof (cases "list_ex (\<lambda>w. contains w (u_lower u line)) words")
    case False
    then show ?thesis using Cons by (simp add: Let_def)
  next
    case True
    show ?thesis
    proof (cases "int (length (acc @ [line])) \<ge> m")
      case full: True
      with Cons.prems have "nat m = length (acc @ [line])" by simp
      then show ?thesis using True full by (simp add: Let_def)
    next
      case more: False
      then have "int (length (acc @ [line])) < m" by simp
      from Cons.IH[OF this] show ?thesis using True more by (simp add: Let_def)
    qed
  qed
qed

text \<open>With a bound of zero or less the loop stops at the first matching line.\<close>

lemma snippets_loop_nonpositive:
  "m \<le> 0 \<Longrightarrow>
   snippets_loop u words m lines [] =
     take 1 (filter (\<lambda>line. list_ex (\<lambda>w. contains w (u_lower u line)) words) lines)"
  by (induction lines) (simp_all add: Let_def)

lemma banfora_tokens:
  "findall_w3 latin1 (str_of ''banfora cascade'') = [str_of ''banfora'', str_of ''cascade'']"
  by (simp add: str_of_def latin1_def latin1_isword_def Let_def)

lemma banfora_search:
  "find_relevant_snippets latin1 (str_of ''banfora cascade'') [fespaco_line, banfora_line] 5 =
     [banfora_line]"
  by (simp add: find_relevant_snippets_def banfora_tokens Let_def)
    (simp add: str_of_def latin1_def latin1_lower_def fespaco_line_def banfora_line_def)

lemma banfora_search_zero:
  "find_relevant_snippets latin1 (str_of ''banfora cascade'') [fespaco_line, banfora_line] 0 =
     [banfora_line]"
  by (simp add: find_relevant_snippets_def banfora_tokens Let_def)
    (simp add: str_of_def latin1_def latin1_lower_def fespaco_line_def banfora_line_def)

lemma banfora_search_minus:
  "find_relevant_snippets latin1 (str_of ''banfora cascade'') [fespaco_line, banfora_line] (- 1) =
     [banfora_line]"
  by (simp add: find_relevant_snippets_def banfora_tokens Let_def)
    (simp add: str_of_def latin1_def latin1_lower_def fespaco_line_def banfora_line_def)

text \<open>
  C7. The keyword search is meant to return at most \<open>max_results\<close> lines, but the loop
  tests the size of \<open>results\<close> only after it has appended a line. With a bound of zero,
  and with the bound \<open>-1\<close> that the endpoint passes on for \<open>top_k = -1\<close>, the search over
  the two lines of the scenario returns the matching line: one line, where a cap of zero
  or less allows none.
\<close>

theorem find_relevant_snippets_nonpositive_bound:
  "find_relevant_snippets latin1 (str_of ''banfora cascade'') [fespaco_line, banfora_line] 0 =
     [banfora_line] \<and>
   \<not> int (length (find_relevant_snippets latin1 (str_of ''banfora cascade'')
         [fespaco_line, banfora_line] 0)) \<le> 0 \<and>
   keyword_search_spec latin1 (str_of ''banfora cascade'') [fespaco_line, banfora_line] 0 = [] \<and>
   find_relevant_snippets latin1 (str_of ''banfora cascade'') [fespaco_line, banfora_line] (- 1) =
     [banfora_line] \<and>
   fallback_snippets latin1 (Some [fespaco_line, banfora_line])
     \<lparr> req_query = str_of ''banfora cascade'', req_top_k = Some (- 1) \<rparr>
     (str_of ''banfora cascade'') = [banfora_line]"
  by (simp add: banfora_search_zero banfora_search_minus keyword_search_spec_def
      fallback_snippets_def)

text \<open>
  For \<open>max_results \<ge> 1\<close> the keyword search is the search of the specification: it
  returns exactly the first \<open>max_results\<close> lines, in stored order, that contain (compared
  in lower case) one of the query's lowercase words of three or more word characters. In
  the scenario of the two lines and the query "banfora cascade" that is the second line
  alone.
\<close>

theorem find_relevant_snippets_spec:
  "1 \<le> max_results \<Longrightarrow>
   find_relevant_snippets u query lines max_results = keyword_search_spec u query lines max_results"
proof -
  assume "1 \<le> max_results"
  then have "int (length ([]::pystr list)) < max_results" by simp
  from snippets_loop_take[OF this]
  have loop: "snippets_loop u words max_results lines [] =
      take (nat max_results)
        (filter (\<lambda>line. list_ex (\<lambda>w. contains w (u_lower u line)) words) lines)" for words
    by simp
  have lm: "line_matches u toks = (\<lambda>line. list_ex (\<lambda>w. contains w (u_lower u line)) toks)"
    for toks
    by (simp add: fun_eq_iff line_matches_def contains_sublist)
  show ?thesis
    by (simp add: find_relevant_snippets_def keyword_search_spec_def spec_tokens_def
        lm loop findall_w3_runs Let_def)
qed

theorem find_relevant_snippets_spec_witness:
  "(1::int) \<le> 5 \<and>
   find_relevant_snippets latin1 (str_of ''banfora cascade'') [fespaco_line, banfora_line] 5 =
     keyword_search_spec latin1 (str_of ''banfora cascade'') [fespaco_line, banfora_line] 5 \<and>
   keyword_search_spec latin1 (str_of ''banfora cascade'') [fespaco_line, banfora_line] 5 =
     [banfora_line]"
proof -
  have h: "(1::int) \<le> 5" by simp
  show ?thesis
    using find_relevant_snippets_spec[OF h, of latin1 "str_of ''banfora cascade''"
        "[fespaco_line, banfora_line]"] banfora_search
    by simp
qed

section \<open>Properties of the answer generator\<close>

lemma build_context_empty_iff: "build_context docs = [] \<longleftrightarrow> docs = []"
  by (cases docs) (auto simp: build_context_def join_def str_of_def)

lemma first_trigger_in:
  "first_trigger table q = Some r \<Longrightarrow> r \<in> snd ` set table"
  by (induction table q rule: first_trigger.induct) (auto split: if_splits)

lemma fallback_fixed: "generate_fallback_response u query \<in> set fixed_responses"
  by (auto simp: generate_fallback_response_def fixed_responses_def Let_def
      split: option.splits dest: first_trigger_in)

lemma remove_all_prefix:
  "old \<noteq> [] \<Longrightarrow> remove_all old (old @ rest) = remove_all old rest"
  by (cases old) simp_all

lemma bonjour_fallback:
  "generate_fallback_response latin1 (str_of ''Bonjour'') = snd (general_responses ! 0)"
  by (simp add: generate_fallback_response_def general_responses_def Let_def strip_def)
    (simp add: str_of_def latin1_def latin1_lower_def latin1_isspace_def)

lemma echo_answer:
  "llm_answer latin1 echo_llm (build_prompt (str_of ''Bonjour'') []) = Inr (str_of ''Ouaga'')"
proof -
  have ne: "build_prompt (str_of ''Bonjour'') [] \<noteq> []"
    by (simp add: build_prompt_def str_of_def)
  have rest: "remove_all (build_prompt (str_of ''Bonjour'') []) (str_of '' Ouaga'') =
      str_of '' Ouaga''"
    by (simp add: build_prompt_def str_of_def)
  have "strip latin1 (str_of '' Ouaga'') = str_of ''Ouaga''"
    by (simp add: strip_def str_of_def latin1_def latin1_isspace_def)
  then show ?thesis
    using ne rest by (simp add: llm_answer_def echo_llm_def subscript_def remove_all_prefix)
qed

lemma ouaga_not_fixed: "str_of ''Ouaga'' \<notin> set fixed_responses"
  by (simp add: fixed_responses_def general_responses_def no_information_def str_of_def)

text \<open>
  C2. When the LLM tier fails at runtime (the pipeline raises, or its output has no first
  element, no \<open>generated_text\<close> or no string there), \<open>generate_response\<close> returns what the
  system without an LLM returns: the response is the text of the template tier for the
  same query and context, nothing is raised, and \<open>context_used\<close> is true exactly when the
  context is not empty.
\<close>

theorem generate_response_llm_failure:
  assumes "llm_pipeline self = Some llm"
    and "llm_answer u llm (build_prompt query (build_context context_docs)) = Inl e"
  shows "generate_response u self query context_docs =
           generate_response u (self\<lparr>llm_pipeline := None\<rparr>) query context_docs \<and>
         response (generate_response u self query context_docs) =
           generate_with_template u query (build_context context_docs) \<and>
         context_used (generate_response u self query context_docs) =
           (build_context context_docs \<noteq> [])"
  using assms
  by (simp add: generate_response_def generate_with_llm_def Let_def build_context_empty_iff)

theorem generate_response_llm_failure_witness:
  "llm_pipeline (example_rag\<lparr>llm_pipeline := Some failing_llm\<rparr>) = Some failing_llm \<and>
   llm_answer latin1 failing_llm
     (build_prompt (str_of ''capitale'') (build_context [example_match 0])) =
     Inl (OtherError (str_of ''CUDA out of memory'')) \<and>
   response (generate_response latin1 (example_rag\<lparr>llm_pipeline := Some failing_llm\<rparr>)
               (str_of ''capitale'') [example_match 0]) =
     generate_with_template latin1 (str_of ''capitale'') (build_context [example_match 0]) \<and>
   context_used (generate_response latin1 (example_rag\<lparr>llm_pipeline := Some failing_llm\<rparr>)
               (str_of ''capitale'') [example_match 0]) = True"
proof -
  have p: "llm_pipeline (example_rag\<lparr>llm_pipeline := Some failing_llm\<rparr>) = Some failing_llm"
    by simp
  have a: "llm_answer latin1 failing_llm
      (build_prompt (str_of ''capitale'') (build_context [example_match 0])) =
      Inl (OtherError (str_of ''CUDA out of memory''))"
    by (simp add: llm_answer_def failing_llm_def)
  have ne: "build_context [example_match 0] \<noteq> []"
    by (simp add: build_context_empty_iff)
  note t = generate_response_llm_failure[OF p a]
  from t have r: "response (generate_response latin1
      (example_rag\<lparr>llm_pipeline := Some failing_llm\<rparr>) (str_of ''capitale'') [example_match 0]) =
      generate_with_template latin1 (str_of ''capitale'') (build_context [example_match 0])"
    by (rule conjunct1[OF conjunct2])
  from t ne have c: "context_used (generate_response latin1
      (example_rag\<lparr>llm_pipeline := Some failing_llm\<rparr>) (str_of ''capitale'') [example_match 0]) =
      True"
    by blast
  from p a r c show ?thesis by blast
qed

text \<open>
  C3, as the claim states it, fails when an LLM backend is loaded and answers: with an
  empty context \<open>generate_response\<close> still calls the backend, and the response is the
  backend's continuation, here the word "Ouaga", which is none of the fixed messages.
\<close>

theorem generate_response_empty_context_counterexample:
  "response (generate_response latin1 (example_rag\<lparr>llm_pipeline := Some echo_llm\<rparr>)
               (str_of ''Bonjour'') []) = str_of ''Ouaga'' \<and>
   str_of ''Ouaga'' \<notin> set fixed_responses"
  using echo_answer ouaga_not_fixed
  by (simp add: generate_response_def generate_with_llm_def build_context_def Let_def)

text \<open>
  C3, amended. With an empty \<open>context_docs\<close>, \<open>context_used\<close> is false and \<open>sources\<close> is
  empty, whatever the backend. When no LLM backend is loaded, or the loaded backend fails
  at runtime, the response is one of the fixed trigger responses or the fixed
  "no information" message. When a backend is loaded and answers, the response is its
  answer: the generated text with the prompt removed, stripped.
\<close>

theorem generate_response_empty_context:
  "context_used (generate_response u self query []) = False \<and>
   sources (generate_response u self query []) = [] \<and>
   (llm_pipeline self = None \<or>
    (\<exists>llm e. llm_pipeline self = Some llm \<and>
             llm_answer u llm (build_prompt query (build_context [])) = Inl e) \<longrightarrow>
    response (generate_response u self query []) \<in> set fixed_responses) \<and>
   (\<forall>llm r. llm_pipeline self = Some llm \<and>
            llm_answer u llm (build_prompt query (build_context [])) = Inr r \<longrightarrow>
            response (generate_response u self query []) = r)"
proof -
  have c: "context_used (generate_response u self query []) = False"
    by (simp add: generate_response_def Let_def)
  have s: "sources (generate_response u self query []) = []"
    by (simp add: generate_response_def Let_def)
  have f: "llm_pipeline self = None \<or>
      (\<exists>llm e. llm_pipeline self = Some llm \<and>
               llm_answer u llm (build_prompt query (build_context [])) = Inl e) \<longrightarrow>
      response (generate_response u self query []) \<in> set fixed_responses"
    using fallback_fixed[of u query]
    by (auto simp: generate_response_def generate_with_llm_def generate_with_template_def
        Let_def build_context_def)
  have a: "\<forall>llm r. llm_pipeline self = Some llm \<and>
      llm_answer u llm (build_prompt query (build_context [])) = Inr r \<longrightarrow>
      response (generate_response u self query []) = r"
    by (auto simp: generate_response_def generate_with_llm_def Let_def)
  from c s f a show ?thesis by blast
qed

theorem generate_response_empty_context_witness:
  "llm_pipeline example_rag = None \<and>
   context_used (generate_response latin1 example_rag (str_of ''Bonjour'') []) = False \<and>
   sources (generate_response latin1 example_rag (str_of ''Bonjour'') []) = [] \<and>
   response (generate_response latin1 example_rag (str_of ''Bonjour'') []) =
     snd (general_responses ! 0) \<and>
   snd (general_responses ! 0) \<in> set fixed_responses \<and>
   llm_answer latin1 failing_llm (build_prompt (str_of ''Bonjour'') (build_context [])) =
     Inl (OtherError (str_of ''CUDA out of memory'')) \<and>
   response (generate_response latin1 (example_rag\<lparr>llm_pipeline := Some failing_llm\<rparr>)
     (str_of ''Bonjour'') []) \<in> set fixed_responses \<and>
   llm_answer latin1 echo_llm (build_prompt (str_of ''Bonjour'') (build_context [])) =
     Inr (str_of ''Ouaga'') \<and>
   response (generate_response latin1 (example_rag\<lparr>llm_pipeline := Some echo_llm\<rparr>)
     (str_of ''Bonjour'') []) = str_of ''Ouaga'' \<and>
   context_used (generate_response latin1 (example_rag\<lparr>llm_pipeline := Some echo_llm\<rparr>)
     (str_of ''Bonjour'') []) = False"
proof -
  have n: "llm_pipeline example_rag = None"
    by (simp add: example_rag_def)
  have r: "response (generate_response latin1 example_rag (str_of ''Bonjour'') []) =
      snd (general_responses ! 0)"
    by (simp add: generate_response_def n build_context_def generate_with_template_def
        bonjour_fallback Let_def)
  have a: "llm_answer latin1 failing_llm (build_prompt (str_of ''Bonjour'') (build_context [])) =
      Inl (OtherError (str_of ''CUDA out of memory''))"
    by (simp add: llm_answer_def failing_llm_def)
  have ec: "llm_answer latin1 echo_llm (build_prompt (str_of ''Bonjour'') (build_context [])) =
      Inr (str_of ''Ouaga'')"
    using echo_answer by (simp add: build_context_def)
  have pf: "llm_pipeline (example_rag\<lparr>llm_pipeline := Some failing_llm\<rparr>) = Some failing_llm"
    by simp
  have pe: "llm_pipeline (example_rag\<lparr>llm_pipeline := Some echo_llm\<rparr>) = Some echo_llm"
    by simp
  note t1 = generate_response_empty_context[of latin1 example_rag "str_of ''Bonjour''"]
  note t2 = generate_response_empty_context[of latin1
      "example_rag\<lparr>llm_pipeline := Some failing_llm\<rparr>" "str_of ''Bonjour''"]
  note t3 = generate_response_empty_context[of latin1
      "example_rag\<lparr>llm_pipeline := Some echo_llm\<rparr>" "str_of ''Bonjour''"]
  from t1 have c1: "context_used (generate_response latin1 example_rag (str_of ''Bonjour'') []) =
      False"
    and s1: "sources (generate_response latin1 example_rag (str_of ''Bonjour'') []) = []"
    by blast+
  from t1 n have m1: "response (generate_response latin1 example_rag (str_of ''Bonjour'') [])
      \<in> set fixed_responses"
    by blast
  then have m1': "snd (general_responses ! 0) \<in> set fixed_responses"
    using r by simp
  from t2 pf a have m2: "response (generate_response latin1
      (example_rag\<lparr>llm_pipeline := Some failing_llm\<rparr>) (str_of ''Bonjour'') [])
      \<in> set fixed_responses"
    by blast
  from t3 pe ec have m3: "response (generate_response latin1
      (example_rag\<lparr>llm_pipeline := Some echo_llm\<rparr>) (str_of ''Bonjour'') []) = str_of ''Ouaga''"
    by blast
  from t3 have c3: "context_used (generate_response latin1
      (example_rag\<lparr>llm_pipeline := Some echo_llm\<rparr>) (str_of ''Bonjour'') []) = False"
    by blast
  from n c1 s1 r m1' a m2 ec m3 c3 show ?thesis by blast
qed

section \<open>Properties of the chat endpoint\<close>

lemma all_dropWhile_iff:
  "(\<forall>x \<in> set (dropWhile P s). P x) \<longleftrightarrow> dropWhile P s = []"
proof
  assume a: "\<forall>x \<in> set (dropWhile P s). P x"
  show "dropWhile P s = []"
  proof (rule ccontr)
    assume n: "dropWhile P s \<noteq> []"
    then have "\<not> P (hd (dropWhile P s))" by (rule hd_dropWhile)
    moreover have "hd (dropWhile P s) \<in> set (dropWhile P s)" using n by simp
    ultimately show False using a by blast
  qed
next
  assume e: "dropWhile P s = []"
  show "\<forall>x \<in> set (dropWhile P s). P x"
    unfolding e by simp
qed

text \<open>\<open>strip\<close> leaves nothing exactly of the strings made of whitespace only.\<close>

lemma strip_empty_iff: "strip u s = [] \<longleftrightarrow> (\<forall>c \<in> set s. u_isspace u c)"
proof -
  have "strip u s = [] \<longleftrightarrow> (\<forall>x \<in> set (dropWhile (u_isspace u) s). u_isspace u x)"
    by (simp add: strip_def dropWhile_eq_Nil_conv)
  also have "\<dots> \<longleftrightarrow> dropWhile (u_isspace u) s = []"
    by (rule all_dropWhile_iff)
  also have "\<dots> \<longleftrightarrow> (\<forall>c \<in> set s. u_isspace u c)"
    by (simp add: dropWhile_eq_Nil_conv)
  finally show ?thesis .
qed

lemma blank_query_blank: "\<forall>c \<in> set blank_query. u_isspace latin1 c"
  by (simp add: blank_query_def latin1_def latin1_isspace_def)

lemma strip_banfora: "strip latin1 (str_of '' banfora cascade '') = str_of ''banfora cascade''"
  by (simp add: strip_def str_of_def latin1_def latin1_isspace_def)

lemma broken_degraded: "degraded RAG_CONFIG latin1 (Some broken_rag) q"
  by (simp add: degraded_def rag_chat_def retrieve_documents_def broken_rag_def example_rag_def
      subscript_def Let_def)

lemma banfora_snippets:
  "fallback_snippets latin1 (Some [fespaco_line, banfora_line])
     \<lparr> req_query = str_of '' banfora cascade '', req_top_k = Some 5 \<rparr>
     (str_of ''banfora cascade'') = [banfora_line]"
  by (simp add: fallback_snippets_def banfora_search)

text \<open>
  C6. A chat request whose query is empty or made of whitespace only is answered with
  the HTTP 400 exception, whatever the RAG system, the source lines and \<open>top_k\<close> are: the
  handler returns before it looks at any of them, so no retrieval or generation runs and
  nothing of the index is touched.
\<close>

theorem chat_rejects_blank_query:
  "\<forall>c \<in> set (req_query request). u_isspace u c \<Longrightarrow>
   chat cfg u rag_system app_sources request = Inl (HTTPException 400 empty_query_detail)"
  by (simp add: chat_def strip_empty_iff)

theorem chat_rejects_blank_query_witness:
  "chat RAG_CONFIG latin1 (Some example_rag) (Some [fespaco_line, banfora_line])
     \<lparr> req_query = blank_query, req_top_k = Some 5 \<rparr> =
     Inl (HTTPException 400 empty_query_detail) \<and>
   chat RAG_CONFIG latin1 None None \<lparr> req_query = [], req_top_k = None \<rparr> =
     Inl (HTTPException 400 empty_query_detail)"
proof -
  have b: "\<forall>c \<in> set (req_query \<lparr> req_query = blank_query, req_top_k = Some 5 \<rparr>).
      u_isspace latin1 c"
    using blank_query_blank by simp
  have e: "\<forall>c \<in> set (req_query \<lparr> req_query = [], req_top_k = None \<rparr>). u_isspace latin1 c"
    by simp
  show ?thesis
    using chat_rejects_blank_query[OF b] chat_rejects_blank_query[OF e] by simp
qed

text \<open>
  C9. In keyword-fallback mode (no RAG system, or its \<open>chat\<close> raised on the query) the
  endpoint answers with \<open>context_used = false\<close>, also when snippets were found and make up
  the answer; \<open>num_sources\<close> is the number of matched lines, and every entry of \<open>sources\<close>
  is a dict with the single key \<open>text\<close> holding the matched line.
\<close>

theorem chat_degraded_mode:
  assumes "strip u (req_query request) \<noteq> []"
    and "degraded cfg u rag_system (strip u (req_query request))"
  shows "chat cfg u rag_system app_sources request =
           Inr (fallback_answer u app_sources request (strip u (req_query request))) \<and>
         resp_context_used (fallback_answer u app_sources request (strip u (req_query request)))
           = False \<and>
         resp_num_sources (fallback_answer u app_sources request (strip u (req_query request)))
           = int (length (fallback_snippets u app_sources request (strip u (req_query request)))) \<and>
         resp_sources (fallback_answer u app_sources request (strip u (req_query request)))
           = map (\<lambda>s. [(str_of ''text'', PStr s)])
               (fallback_snippets u app_sources request (strip u (req_query request)))"
proof -
  have q: "req_query request \<noteq> []"
    using assms(1) by (auto simp: strip_def)
  have "chat cfg u rag_system app_sources request =
      Inr (fallback_answer u app_sources request (strip u (req_query request)))"
    using assms q
    by (auto simp: chat_def degraded_def Let_def split: option.splits sum.splits)
  then show ?thesis
    by (simp add: fallback_answer_def Let_def)
qed

theorem chat_degraded_mode_witness:
  "strip latin1 (str_of '' banfora cascade '') = str_of ''banfora cascade'' \<and>
   degraded RAG_CONFIG latin1 None (str_of ''banfora cascade'') \<and>
   degraded RAG_CONFIG latin1 (Some broken_rag) (str_of ''banfora cascade'') \<and>
   chat RAG_CONFIG latin1 (Some broken_rag) (Some [fespaco_line, banfora_line])
     \<lparr> req_query = str_of '' banfora cascade '', req_top_k = Some 5 \<rparr> =
     Inr (fallback_answer latin1 (Some [fespaco_line, banfora_line])
            \<lparr> req_query = str_of '' banfora cascade '', req_top_k = Some 5 \<rparr>
            (str_of ''banfora cascade'')) \<and>
   resp_context_used (fallback_answer latin1 (Some [fespaco_line, banfora_line])
            \<lparr> req_query = str_of '' banfora cascade '', req_top_k = Some 5 \<rparr>
            (str_of ''banfora cascade'')) = False \<and>
   resp_num_sources (fallback_answer latin1 (Some [fespaco_line, banfora_line])
            \<lparr> req_query = str_of '' banfora cascade '', req_top_k = Some 5 \<rparr>
            (str_of ''banfora cascade'')) = 1 \<and>
   resp_sources (fallback_answer latin1 (Some [fespaco_line, banfora_line])
            \<lparr> req_query = str_of '' banfora cascade '', req_top_k = Some 5 \<rparr>
            (str_of ''banfora cascade'')) = [[(str_of ''text'', PStr banfora_line)]]"
proof -
  let ?req = "\<lparr> req_query = str_of '' banfora cascade '', req_top_k = Some 5 \<rparr>"
  have s: "strip latin1 (req_query ?req) = str_of ''banfora cascade''"
    using strip_banfora by simp
  have n: "strip latin1 (req_query ?req) \<noteq> []"
    unfolding s by (simp add: str_of_def)
  have d0: "degraded RAG_CONFIG latin1 None (str_of ''banfora cascade'')"
    by (simp add: degraded_def)
  have d: "degraded RAG_CONFIG latin1 (Some broken_rag) (strip latin1 (req_query ?req))"
    by (rule broken_degraded)
  note t = chat_degraded_mode[OF n d, of "Some [fespaco_line, banfora_line]"]
  show ?thesis
    using t d0 broken_degraded[of "str_of ''banfora cascade''"] strip_banfora
    unfolding s banfora_snippets
    by simp
qed

section \<open>Properties of the corpus load\<close>


lemma open_json_load_error:
  "fs_files fs path = None \<or> fs_files fs path = Some NotJson \<Longrightarrow>
   open_json_load fs path = Inl FileNotFoundError \<or> open_json_load fs path = Inl JSONDecodeError"
  by (auto simp: open_json_load_def)

lemma load_corpus_error:
  "fs_files fs path = None \<or> fs_files fs path = Some NotJson \<Longrightarrow>
   load_corpus db fs self path = Inr self"
  by (auto simp: load_corpus_def open_json_load_def)

lemma get_statistics_Inr:
  "\<exists>st. get_statistics u loader = Inr st \<and> total_documents st = int (length (dl_documents loader))"
  by (cases "dl_documents loader") (simp_all add: get_statistics_def floordiv_def Let_def)

lemma load_corpus_unreadable:
  "fs_files fs path = Some Unreadable \<Longrightarrow>
   load_corpus db fs self path = Inl (OtherError (str_of ''PermissionError''))"
  by (simp add: load_corpus_def open_json_load_def)

lemma load_corpus_undecodable:
  "fs_files fs path = Some Undecodable \<Longrightarrow> load_corpus db fs self path = Inl UnicodeDecodeError"
  by (simp add: load_corpus_def open_json_load_def)

lemma load_corpus_too_deep:
  "fs_files fs path = Some TooDeep \<Longrightarrow> load_corpus db fs self path = Inl RecursionError"
  by (simp add: load_corpus_def open_json_load_def)

text \<open>
  What \<open>load_corpus\<close> tolerates. When the corpus file is missing, or is UTF-8 text that is
  not JSON, the error is caught and the call returns with the system as it was: nothing
  is added to the index. The reinitialize endpoint goes on after such a load: once the
  collection is cleared and the loader has saved its corpus, it answers "success" with
  the loader's document count, the index being the cleared one.
\<close>

theorem load_corpus_tolerates_errors:
  assumes "fs_files fs corpus_path = None \<or> fs_files fs corpus_path = Some NotJson"
  shows "load_corpus db fs self corpus_path = Inr self \<and>
         (app_rag_system st = Some self0 \<and> app_data_loader st = Some loader \<and>
          self = clear_database db self0 \<and>
          save_corpus (app_fs st) (add_sample_data u clock samples loader) = Inr fs \<longrightarrow>
          initialize_corpus db u clock samples corpus_path st =
            (Inr (init_success (int (length (dl_documents (add_sample_data u clock samples loader))))),
             st\<lparr>app_rag_system := Some self,
                app_data_loader := Some (add_sample_data u clock samples loader),
                app_fs := fs\<rparr>))"
proof -
  have l: "load_corpus db fs self corpus_path = Inr self"
    using assms by (rule load_corpus_error)
  obtain stats where s: "get_statistics u (add_sample_data u clock samples loader) = Inr stats"
    and n: "total_documents stats = int (length (dl_documents (add_sample_data u clock samples loader)))"
    using get_statistics_Inr by blast
  show ?thesis
    using l s n by (auto simp: initialize_corpus_def Let_def)
qed


lemma add_samples_path:
  "dl_corpus_path (add_samples u clock n samples loader) = dl_corpus_path loader"
  by (induction u clock n samples loader rule: add_samples.induct)
    (simp_all add: add_document_def Let_def)

lemma example_sample_added:
  "length (dl_documents (add_sample_data latin1 example_clock example_samples example_loader)) = 1"
  by (simp add: add_sample_data_def example_samples_def example_loader_def add_document_def
      clean_text_def drop_control_def strip_def Let_def)
    (simp add: str_of_def latin1_def latin1_isspace_def)

lemma example_save:
  "save_corpus (app_fs example_state)
     (add_sample_data latin1 example_clock example_samples example_loader) = Inr example_saved_fs"
  by (simp add: save_corpus_def example_state_def example_saved_fs_def add_sample_data_def
      add_samples_path example_loader_def)

lemma corpus_missing: "fs_files example_saved_fs CORPUS_PATH = None"
  by (simp add: example_saved_fs_def CORPUS_PATH_def str_of_def)

theorem load_corpus_tolerates_errors_witness:
  "fs_files example_saved_fs CORPUS_PATH = None \<and>
   fs_files example_malformed_fs CORPUS_PATH = Some NotJson \<and>
   load_corpus example_chroma example_saved_fs (clear_database example_chroma example_rag)
     CORPUS_PATH = Inr (clear_database example_chroma example_rag) \<and>
   load_corpus example_chroma example_malformed_fs example_rag CORPUS_PATH = Inr example_rag \<and>
   fst (initialize_corpus example_chroma latin1 example_clock example_samples CORPUS_PATH
          example_state) = Inr (init_success 1) \<and>
   app_rag_system (snd (initialize_corpus example_chroma latin1 example_clock example_samples
          CORPUS_PATH example_state)) = Some (clear_database example_chroma example_rag)"
proof -
  have m: "fs_files example_malformed_fs CORPUS_PATH = Some NotJson"
    by (simp add: example_malformed_fs_def)
  have h1: "fs_files example_saved_fs CORPUS_PATH = None \<or>
      fs_files example_saved_fs CORPUS_PATH = Some NotJson"
    using corpus_missing by simp
  have h2: "fs_files example_malformed_fs CORPUS_PATH = None \<or>
      fs_files example_malformed_fs CORPUS_PATH = Some NotJson"
    using m by simp
  have pre: "app_rag_system example_state = Some example_rag \<and>
      app_data_loader example_state = Some example_loader \<and>
      clear_database example_chroma example_rag = clear_database example_chroma example_rag \<and>
      save_corpus (app_fs example_state)
        (add_sample_data latin1 example_clock example_samples example_loader) =
      Inr example_saved_fs"
    using example_save by (simp add: example_state_def)
  note t1 = load_corpus_tolerates_errors[OF h1, of example_chroma
      "clear_database example_chroma example_rag" example_state example_rag example_loader
      latin1 example_clock example_samples]
  note t2 = load_corpus_tolerates_errors[OF h2, of example_chroma example_rag]
  from t1 have l1: "load_corpus example_chroma example_saved_fs
      (clear_database example_chroma example_rag) CORPUS_PATH =
      Inr (clear_database example_chroma example_rag)"
    by (rule conjunct1)
  from t2 have l2: "load_corpus example_chroma example_malformed_fs example_rag CORPUS_PATH =
      Inr example_rag"
    by (rule conjunct1)
  from t1 pre have i: "initialize_corpus example_chroma latin1 example_clock example_samples
      CORPUS_PATH example_state =
      (Inr (init_success (int (length (dl_documents
          (add_sample_data latin1 example_clock example_samples example_loader))))),
       example_state\<lparr>app_rag_system := Some (clear_database example_chroma example_rag),
         app_data_loader := Some (add_sample_data latin1 example_clock example_samples
           example_loader),
         app_fs := example_saved_fs\<rparr>)"
    by blast
  show ?thesis
    using corpus_missing m l1 l2 by (simp add: i example_sample_added)
qed

text \<open>
  C8. A malformed corpus file is meant to be tolerated, but \<open>load_corpus\<close> catches only
  FileNotFoundError and JSONDecodeError. For a corpus file cut inside a multi-byte
  character the read raises UnicodeDecodeError, which \<open>load_corpus\<close> lets through, and the
  reinitialize endpoint is aborted with status 500.
\<close>

theorem load_corpus_truncated_file:
  "fs_files example_truncated_fs CORPUS_PATH = Some Undecodable \<and>
   load_corpus example_chroma example_truncated_fs example_rag CORPUS_PATH =
     Inl UnicodeDecodeError \<and>
   fst (initialize_corpus example_chroma latin1 example_clock example_samples CORPUS_PATH
          example_truncated_state) = Inl init_failed"
proof -
  have f: "fs_files example_truncated_fs CORPUS_PATH = Some Undecodable"
    by (simp add: example_truncated_fs_def)
  have l: "load_corpus example_chroma example_truncated_fs example_rag CORPUS_PATH =
      Inl UnicodeDecodeError"
    using f by (rule load_corpus_undecodable)
  have p: "dl_corpus_path (add_sample_data latin1 example_clock example_samples example_loader) =
      str_of ''tmp/corpus.json''"
    by (simp add: add_sample_data_def add_samples_path example_loader_def)
  have d: "str_of ''tmp/corpus.json'' \<noteq> CORPUS_PATH"
    by (simp add: CORPUS_PATH_def str_of_def)
  have s: "save_corpus (app_fs example_truncated_state)
      (add_sample_data latin1 example_clock example_samples example_loader) =
      Inr (example_truncated_fs\<lparr>fs_files := (fs_files example_truncated_fs)
        (str_of ''tmp/corpus.json'' \<mapsto> JsonDocuments (dl_documents
           (add_sample_data latin1 example_clock example_samples example_loader)))\<rparr>)"
    by (simp add: save_corpus_def example_truncated_state_def p example_truncated_fs_def)
  have f': "fs_files (example_truncated_fs\<lparr>fs_files := (fs_files example_truncated_fs)
        (str_of ''tmp/corpus.json'' \<mapsto> JsonDocuments (dl_documents
           (add_sample_data latin1 example_clock example_samples example_loader)))\<rparr>) CORPUS_PATH =
      Some Undecodable"
    using d f by auto
  have i: "fst (initialize_corpus example_chroma latin1 example_clock example_samples CORPUS_PATH
      example_truncated_state) = Inl init_failed"
    by (simp add: initialize_corpus_def Let_def example_truncated_state_def example_state_def
        s[unfolded example_truncated_state_def, simplified] load_corpus_undecodable[OF f'])
  from f l i show ?thesis by blast
qed

end
